theory Spec2Isabelle
  imports Main
begin

section \<open>Values, rows and JSONL entries\<close>

text \<open>
  A routed row is a JavaScript object literal (\<^verbatim>\<open>Record<string, unknown>\<close>): an
  association list from column names to values, in the order the literal writes them.
  Values are JSON values; JavaScript numbers are modelled by integers (the token counts and
  durations the pipeline carries), \<^verbatim>\<open>null\<close> is \<open>JNull\<close>.
\<close>

datatype json =
    JNull
  | JBool bool
  | JNum int
  | JStr string
  | JArr "json list"
  | JObj "(string \<times> json) list"

type_synonym row = "(string \<times> json) list"

text \<open>\<^verbatim>\<open>x ?? null\<close> for an optional field.\<close>

definition str_or_null :: "string option \<Rightarrow> json" where
  "str_or_null x = (case x of None \<Rightarrow> JNull | Some s \<Rightarrow> JStr s)"

definition num_or_null :: "int option \<Rightarrow> json" where
  "num_or_null x = (case x of None \<Rightarrow> JNull | Some n \<Rightarrow> JNum n)"

text \<open>\<^verbatim>\<open>x ?? false\<close> for an optional boolean.\<close>

definition bool_or_false :: "bool option \<Rightarrow> json" where
  "bool_or_false x = (case x of None \<Rightarrow> JBool False | Some b \<Rightarrow> JBool b)"

subsection \<open>The eight entry schemas (schemas/jsonl.ts)\<close>

datatype user_content = ContentString string | ContentBlocks "string list"

record UserEntry =
  u_timestamp :: string
  u_content :: user_content
  u_uuid :: "string option"
  u_parentUuid :: "string option"
  u_isSidechain :: "bool option"
  u_version :: "string option"
  u_slug :: "string option"
  u_cwd :: "string option"
  u_gitBranch :: "string option"
  u_userType :: "string option"

datatype content_block =
    TextBlock string
  | ToolUseBlock string string "(string \<times> json) list"

record UsageInfo =
  input_tokens :: int
  output_tokens :: int
  cache_creation_input_tokens :: "int option"
  cache_read_input_tokens :: "int option"
  ephemeral_5m_input_tokens :: "int option"
  ephemeral_1h_input_tokens :: "int option"
  service_tier :: "string option"

record AssistantEntry =
  a_timestamp :: string
  a_requestId :: "string option"
  a_message_id :: "string option"
  a_content :: "content_block list"
  a_model :: "string option"
  a_stop_reason :: "string option"
  a_stop_sequence :: "string option"
  a_usage :: "UsageInfo option"
  a_uuid :: "string option"
  a_parentUuid :: "string option"
  a_isMeta :: "bool option"

record SummaryEntry =
  s_timestamp :: string
  s_summary :: string
  s_leafUuid :: "string option"
  s_sessionId :: "string option"
  s_parentSessionId :: "string option"
  s_isSidechain :: "bool option"

record CustomTitleEntry =
  c_timestamp :: string
  c_title :: string

record FileHistorySnapshotEntry =
  f_timestamp :: string
  f_trackedFiles :: "(string \<times> json) list"
  f_isSnapshotUpdate :: "bool option"

record ProgressEntry =
  p_timestamp :: string
  p_hookEvent :: "string option"
  p_hookName :: "string option"
  p_command :: "string option"
  p_toolUseId :: "string option"
  p_parentToolUseId :: "string option"
  p_uuid :: "string option"
  p_parentUuid :: "string option"

record QueueOperationEntry =
  q_timestamp :: string
  q_operation :: string
  q_content :: string

record SystemEntry =
  y_timestamp :: string
  y_subtype :: string
  y_duration :: "int option"
  y_uuid :: "string option"
  y_parentUuid :: "string option"
  y_isMeta :: "bool option"

text \<open>
  \<open>AnyEntry\<close> is the union of the eight schemas. \<open>OtherEntry t\<close> stands for a run-time
  value that is none of them, with its \<^verbatim>\<open>type\<close> field \<open>t\<close> if it has one: the value the
  \<^verbatim>\<open>default\<close> branch of the router is written for. The type checker excludes it, the
  run-time switch does not.
\<close>

datatype AnyEntry =
    User UserEntry
  | Assistant AssistantEntry
  | Summary SummaryEntry
  | CustomTitle CustomTitleEntry
  | FileHistorySnapshot FileHistorySnapshotEntry
  | Progress ProgressEntry
  | QueueOperation QueueOperationEntry
  | System SystemEntry
  | OtherEntry "string option"

fun entry_type :: "AnyEntry \<Rightarrow> string option" where
  "entry_type (User _) = Some ''user''"
| "entry_type (Assistant _) = Some ''assistant''"
| "entry_type (Summary _) = Some ''summary''"
| "entry_type (CustomTitle _) = Some ''custom-title''"
| "entry_type (FileHistorySnapshot _) = Some ''file-history-snapshot''"
| "entry_type (Progress _) = Some ''progress''"
| "entry_type (QueueOperation _) = Some ''queue-operation''"
| "entry_type (System _) = Some ''system''"
| "entry_type (OtherEntry t) = t"

text \<open>The literals of \<^verbatim>\<open>EntryType\<close>.\<close>

definition EntryType :: "string list" where
  "EntryType = [''user'', ''assistant'', ''summary'', ''custom-title'',
     ''file-history-snapshot'', ''progress'', ''queue-operation'', ''system'']"

record DecodedEntry =
  lineNum :: nat
  entry :: AnyEntry

section \<open>Router (parser/router.ts)\<close>

datatype StagingTable =
    sessions_staging
  | messages_staging
  | tool_calls_staging
  | progress_events_staging
  | queue_operations_staging
  | system_events_staging
  | file_history_staging

text \<open>
  \<^verbatim>\<open>RouteResult = RoutedEntry | SkippedEntry\<close>; the table \<^verbatim>\<open>'skip'\<close> is the
  constructor \<open>Skipped\<close> (reason, entryType, lineNum).
\<close>

datatype RouteResult =
    Routed (r_table: StagingTable) (r_row: row) (r_lineNum: nat)
  | Skipped (k_reason: string) (k_entryType: string) (k_lineNum: nat)

fun block_text :: "content_block \<Rightarrow> string list" where
  "block_text (TextBlock t) = [t]"
| "block_text (ToolUseBlock _ _ _) = []"

definition usage_num :: "UsageInfo option \<Rightarrow> (UsageInfo \<Rightarrow> int option) \<Rightarrow> json" where
  "usage_num u f = (case u of None \<Rightarrow> JNull | Some x \<Rightarrow> num_or_null (f x))"

fun toMessageRow :: "AnyEntry \<Rightarrow> string \<Rightarrow> row" where
  "toMessageRow (User e) sessionId =
     [(''session_id'', JStr sessionId),
      (''timestamp'', JStr (u_timestamp e)),
      (''role'', JStr ''user''),
      (''content'', JStr (case u_content e of
                            ContentString s \<Rightarrow> s
                          | ContentBlocks bs \<Rightarrow> concat bs)),
      (''is_meta'', JBool False),
      (''uuid'', str_or_null (u_uuid e)),
      (''parent_uuid'', str_or_null (u_parentUuid e))]"
| "toMessageRow (Assistant e) sessionId =
     [(''session_id'', JStr sessionId),
      (''timestamp'', JStr (a_timestamp e)),
      (''role'', JStr ''assistant''),
      (''content'', JStr (concat (concat (map block_text (a_content e))))),
      (''is_meta'', bool_or_false (a_isMeta e)),
      (''uuid'', str_or_null (a_uuid e)),
      (''parent_uuid'', str_or_null (a_parentUuid e)),
      (''request_id'', str_or_null (a_requestId e)),
      (''message_id'', str_or_null (a_message_id e)),
      (''model'', str_or_null (a_model e)),
      (''stop_reason'', str_or_null (a_stop_reason e)),
      (''stop_sequence'', str_or_null (a_stop_sequence e)),
      (''input_tokens'', usage_num (a_usage e) (\<lambda>u. Some (input_tokens u))),
      (''output_tokens'', usage_num (a_usage e) (\<lambda>u. Some (output_tokens u))),
      (''cache_creation_input_tokens'', usage_num (a_usage e) cache_creation_input_tokens),
      (''cache_read_input_tokens'', usage_num (a_usage e) cache_read_input_tokens),
      (''ephemeral_5m_input_tokens'', usage_num (a_usage e) ephemeral_5m_input_tokens),
      (''ephemeral_1h_input_tokens'', usage_num (a_usage e) ephemeral_1h_input_tokens),
      (''service_tier'', (case a_usage e of None \<Rightarrow> JNull
                                          | Some u \<Rightarrow> str_or_null (service_tier u)))]"
| "toMessageRow _ sessionId = []"

fun toProgressRow :: "AnyEntry \<Rightarrow> string \<Rightarrow> row" where
  "toProgressRow (Progress e) sessionId =
     [(''session_id'', JStr sessionId),
      (''timestamp'', JStr (p_timestamp e)),
      (''hook_event'', str_or_null (p_hookEvent e)),
      (''hook_name'', str_or_null (p_hookName e)),
      (''command'', str_or_null (p_command e)),
      (''tool_use_id'', str_or_null (p_toolUseId e)),
      (''parent_tool_use_id'', str_or_null (p_parentToolUseId e)),
      (''uuid'', str_or_null (p_uuid e)),
      (''parent_uuid'', str_or_null (p_parentUuid e))]"
| "toProgressRow _ sessionId = []"

fun toSessionMetadataRow :: "AnyEntry \<Rightarrow> string \<Rightarrow> row" where
  "toSessionMetadataRow (Summary e) sessionId =
     [(''id'', JStr sessionId),
      (''title'', JStr (s_summary e)),
      (''leaf_uuid'', str_or_null (s_leafUuid e)),
      (''parent_session_id'', str_or_null (s_parentSessionId e)),
      (''is_sidechain'', bool_or_false (s_isSidechain e))]"
| "toSessionMetadataRow _ sessionId = []"

fun toFileHistoryRow :: "AnyEntry \<Rightarrow> string \<Rightarrow> row" where
  "toFileHistoryRow (FileHistorySnapshot e) sessionId =
     [(''session_id'', JStr sessionId),
      (''timestamp'', JStr (f_timestamp e)),
      (''tracked_files'', JObj (f_trackedFiles e)),
      (''is_snapshot_update'', bool_or_false (f_isSnapshotUpdate e))]"
| "toFileHistoryRow _ sessionId = []"

fun toQueueOperationRow :: "AnyEntry \<Rightarrow> string \<Rightarrow> row" where
  "toQueueOperationRow (QueueOperation e) sessionId =
     [(''session_id'', JStr sessionId),
      (''timestamp'', JStr (q_timestamp e)),
      (''operation'', JStr (q_operation e)),
      (''content'', JStr (q_content e))]"
| "toQueueOperationRow _ sessionId = []"

fun toSystemEventRow :: "AnyEntry \<Rightarrow> string \<Rightarrow> row" where
  "toSystemEventRow (System e) sessionId =
     [(''session_id'', JStr sessionId),
      (''timestamp'', JStr (y_timestamp e)),
      (''subtype'', JStr (y_subtype e)),
      (''is_meta'', bool_or_false (y_isMeta e)),
      (''duration_ms'', num_or_null (y_duration e)),
      (''uuid'', str_or_null (y_uuid e)),
      (''parent_uuid'', str_or_null (y_parentUuid e))]"
| "toSystemEventRow _ sessionId = []"

text \<open>The row of the \<^verbatim>\<open>custom-title\<close> case, written inline in the switch.\<close>

fun customTitleRow :: "AnyEntry \<Rightarrow> row" where
  "customTitleRow (CustomTitle e) = [(''custom_title'', JStr (c_title e))]"
| "customTitleRow _ = []"

text \<open>\<^verbatim>\<open>(entry as { type?: string }).type ?? 'undefined'\<close>\<close>

definition type_or_undefined :: "AnyEntry \<Rightarrow> string" where
  "type_or_undefined e = (case entry_type e of None \<Rightarrow> ''undefined'' | Some t \<Rightarrow> t)"

text \<open>
  The switch on \<^verbatim>\<open>entry.type\<close>, case by case in the order of the source. For an
  \<open>OtherEntry\<close> whose type field repeats one of the eight literals the source reads
  fields the value does not have; the model gives such a value the empty row.
\<close>

definition routeEntry :: "DecodedEntry \<Rightarrow> string \<Rightarrow> RouteResult" where
  "routeEntry decoded sessionId =
     (let n = lineNum decoded; e = entry decoded; t = entry_type e in
      if t = Some ''user'' \<or> t = Some ''assistant'' then
        Routed messages_staging (toMessageRow e sessionId) n
      else if t = Some ''progress'' then
        Routed progress_events_staging (toProgressRow e sessionId) n
      else if t = Some ''summary'' then
        Routed sessions_staging (toSessionMetadataRow e sessionId) n
      else if t = Some ''file-history-snapshot'' then
        Routed file_history_staging (toFileHistoryRow e sessionId) n
      else if t = Some ''queue-operation'' then
        Routed queue_operations_staging (toQueueOperationRow e sessionId) n
      else if t = Some ''system'' then
        Routed system_events_staging (toSystemEventRow e sessionId) n
      else if t = Some ''custom-title'' then
        Routed sessions_staging (customTitleRow e) n
      else
        Skipped (''Unknown entry type: '' @ type_or_undefined e) (type_or_undefined e) n)"

definition isSkipped :: "RouteResult \<Rightarrow> bool" where
  "isSkipped result = (case result of Skipped _ _ _ \<Rightarrow> True | Routed _ _ _ \<Rightarrow> False)"

definition isRouted :: "RouteResult \<Rightarrow> bool" where
  "isRouted result = (case result of Routed _ _ _ \<Rightarrow> True | Skipped _ _ _ \<Rightarrow> False)"


section \<open>The sessions staging table (migrations/002_staging)\<close>

text \<open>
  The columns of \<^verbatim>\<open>sessions_staging\<close> as the 002_staging migration creates the table:
  name, SQL type, \<^verbatim>\<open>NOT NULL\<close>, default.
\<close>

record column =
  col_name :: string
  col_type :: string
  col_not_null :: bool
  col_default :: "string option"

definition mk_column :: "string \<Rightarrow> string \<Rightarrow> bool \<Rightarrow> string option \<Rightarrow> column" where
  "mk_column n t nn d = \<lparr>col_name = n, col_type = t, col_not_null = nn, col_default = d\<rparr>"

definition sessions_staging_columns :: "column list" where
  "sessions_staging_columns =
     [mk_column ''id'' ''UUID'' True None,
      mk_column ''project_path'' ''TEXT'' True None,
      mk_column ''started_at'' ''TIMESTAMPTZ'' True None,
      mk_column ''ended_at'' ''TIMESTAMPTZ'' False None,
      mk_column ''status'' ''TEXT'' True (Some ''active''),
      mk_column ''title'' ''TEXT'' False None,
      mk_column ''custom_title'' ''TEXT'' False None,
      mk_column ''version'' ''TEXT'' False None,
      mk_column ''slug'' ''TEXT'' False None,
      mk_column ''cwd'' ''TEXT'' False None,
      mk_column ''git_branch'' ''TEXT'' False None,
      mk_column ''user_type'' ''TEXT'' False None,
      mk_column ''parent_session_id'' ''UUID'' False None,
      mk_column ''is_sidechain'' ''BOOLEAN'' False (Some ''FALSE''),
      mk_column ''leaf_uuid'' ''UUID'' False None,
      mk_column ''total_messages'' ''INTEGER'' False (Some ''0''),
      mk_column ''total_tokens'' ''INTEGER'' False (Some ''0'')]"

text \<open>The columns an inserted row has to give a value for: \<^verbatim>\<open>NOT NULL\<close> and no default.\<close>

definition required_columns :: "column list \<Rightarrow> string list" where
  "required_columns cs = map col_name (filter (\<lambda>c. col_not_null c \<and> col_default c = None) cs)"


section \<open>Errors of the store (store/types.ts)\<close>

text \<open>The operation tags of a \<open>DBError\<close>, \<^verbatim>\<open>insert_staging\<close> to \<^verbatim>\<open>transaction\<close>.\<close>

datatype db_operation =
    op_insert_staging
  | op_flush
  | op_cursor_get
  | op_cursor_set
  | op_truncate
  | op_transaction

record DBError =
  operation :: db_operation
  db_table :: "string option"
  db_cause :: string

section \<open>Batch accumulator (store/accumulator.ts)\<close>

text \<open>
  The accumulator keeps its state in a \<^verbatim>\<open>Ref\<close> and calls a flush function that acts on
  the store. The model passes both explicitly: the accumulator state, and a store of any
  type \<open>'s\<close>. A flush function takes the batch and the store and returns the inserted
  count or a \<open>DBError\<close>, with the store it leaves. \<open>acc_now\<close> reads \<^verbatim>\<open>Date.now()\<close>.
  The batch size is a row count, a natural number.
\<close>

record 'a AccumulatorState =
  items :: "'a list"
  totalFlushed :: nat
  flushCount :: nat

record FlushResult =
  insertedCount :: nat
  fr_table :: string
  fr_durationMs :: int

record ('a, 's) BatchAccumulator =
  tableName :: string
  flushFn :: "'a list \<Rightarrow> 's \<Rightarrow> (DBError + nat) \<times> 's"
  batchSize :: nat
  acc_now :: "'s \<Rightarrow> int"

definition DEFAULT_STORE_BATCH_CONFIG_batchSize :: nat where
  "DEFAULT_STORE_BATCH_CONFIG_batchSize = 1000"

definition initialState :: "'a AccumulatorState" where
  "initialState = \<lparr>items = [], totalFlushed = 0, flushCount = 0\<rparr>"

text \<open>
  \<^verbatim>\<open>createBatchAccumulator(tableName, flushFn, config)\<close>: the accumulator and the state
  its \<^verbatim>\<open>Ref\<close> starts with. \<open>config\<close> is the optional \<^verbatim>\<open>batchSize\<close>.
\<close>

definition createBatchAccumulator ::
  "string \<Rightarrow> ('a list \<Rightarrow> 's \<Rightarrow> (DBError + nat) \<times> 's) \<Rightarrow> nat option \<Rightarrow> ('s \<Rightarrow> int)
     \<Rightarrow> ('a, 's) BatchAccumulator \<times> 'a AccumulatorState" where
  "createBatchAccumulator name f config clock =
     (\<lparr>tableName = name, flushFn = f,
       batchSize = (case config of None \<Rightarrow> DEFAULT_STORE_BATCH_CONFIG_batchSize | Some b \<Rightarrow> b),
       acc_now = clock\<rparr>,
      initialState)"

definition doFlush ::
  "('a, 's) BatchAccumulator \<Rightarrow> 'a AccumulatorState \<Rightarrow> 's
     \<Rightarrow> (DBError + FlushResult) \<times> 'a AccumulatorState \<times> 's" where
  "doFlush acc state s =
     (if length (items state) = 0 then
        (Inr \<lparr>insertedCount = 0, fr_table = tableName acc, fr_durationMs = 0\<rparr>, state, s)
      else
        (let startTime = acc_now acc s in
         case flushFn acc (items state) s of
           (Inl e, s') \<Rightarrow> (Inl e, state, s')
         | (Inr count, s') \<Rightarrow>
             (Inr \<lparr>insertedCount = count, fr_table = tableName acc,
                   fr_durationMs = acc_now acc s' - startTime\<rparr>,
              \<lparr>items = [], totalFlushed = totalFlushed state + count,
               flushCount = flushCount state + 1\<rparr>,
              s')))"

text \<open>\<open>add\<close> returns \<open>Some\<close> flush result when the batch size was reached, \<open>None\<close> for
  \<^verbatim>\<open>undefined\<close>.\<close>

definition add ::
  "('a, 's) BatchAccumulator \<Rightarrow> 'a \<Rightarrow> 'a AccumulatorState \<Rightarrow> 's
     \<Rightarrow> (DBError + FlushResult option) \<times> 'a AccumulatorState \<times> 's" where
  "add acc item s0 s =
     (let state = s0\<lparr>items := items s0 @ [item]\<rparr> in
      if length (items state) \<ge> batchSize acc then
        (case doFlush acc state s of
           (Inl e, state', s') \<Rightarrow> (Inl e, state', s')
         | (Inr r, state', s') \<Rightarrow> (Inr (Some r), state', s'))
      else (Inr None, state, s))"

text \<open>The loop of \<open>addMany\<close>, with the results collected so far.\<close>

fun addMany_loop ::
  "('a, 's) BatchAccumulator \<Rightarrow> 'a list \<Rightarrow> FlushResult list \<Rightarrow> 'a AccumulatorState \<Rightarrow> 's
     \<Rightarrow> (DBError + FlushResult list) \<times> 'a AccumulatorState \<times> 's" where
  "addMany_loop acc [] results state s = (Inr results, state, s)"
| "addMany_loop acc (item # rest) results state s =
     (case add acc item state s of
        (Inl e, state', s') \<Rightarrow> (Inl e, state', s')
      | (Inr None, state', s') \<Rightarrow> addMany_loop acc rest results state' s'
      | (Inr (Some r), state', s') \<Rightarrow> addMany_loop acc rest (results @ [r]) state' s')"

definition addMany ::
  "('a, 's) BatchAccumulator \<Rightarrow> 'a list \<Rightarrow> 'a AccumulatorState \<Rightarrow> 's
     \<Rightarrow> (DBError + FlushResult list) \<times> 'a AccumulatorState \<times> 's" where
  "addMany acc xs state s = addMany_loop acc xs [] state s"

definition flush_acc ::
  "('a, 's) BatchAccumulator \<Rightarrow> 'a AccumulatorState \<Rightarrow> 's
     \<Rightarrow> (DBError + FlushResult) \<times> 'a AccumulatorState \<times> 's" where
  "flush_acc acc state s = doFlush acc state s"

definition getState :: "'a AccumulatorState \<Rightarrow> 'a AccumulatorState" where
  "getState state = state"

definition reset :: "'a AccumulatorState \<Rightarrow> 'a AccumulatorState" where
  "reset state = \<lparr>items = [], totalFlushed = 0, flushCount = 0\<rparr>"

text \<open>A flush function for tests: it accepts every batch and logs it.\<close>

definition recordingFlush :: "'a list \<Rightarrow> 'a list list \<Rightarrow> (DBError + nat) \<times> 'a list list" where
  "recordingFlush rows log = (Inr (length rows), log @ [rows])"

section \<open>The store\<close>

text \<open>
  The database is reached through SQL statements. The model keeps the relational state the
  statements of the source read and write: the contents of each table by name (rows in
  insertion order), and the key/value table \<^verbatim>\<open>ingestion_state\<close>. Every statement the
  code sends is appended to \<open>trace\<close>, whether it succeeds or not.

  Whether the database accepts a statement (connection loss, a constraint or a type the DDL
  declares, a missing relation) is decided outside the code: \<open>db_fault\<close> gives, for the
  statements sent so far and the statement about to be sent, the cause of its failure if
  it fails. \<open>date_now\<close> is the clock behind \<^verbatim>\<open>Date.now()\<close> and \<^verbatim>\<open>NOW()\<close>, read
  as a function of the statements sent so far. A \<open>runtime\<close> stands where the source
  passes the \<^verbatim>\<open>db\<close> handle.
\<close>

text \<open>
  The JSON document \<^verbatim>\<open>setCursor\<close> stores. \<^verbatim>\<open>toISOString\<close> and \<^verbatim>\<open>new Date(string)\<close>
  are inverse to each other on valid dates, so a stored date is kept as its epoch
  milliseconds. The fields \<^verbatim>\<open>getCursor\<close> reads with a default are optional.
\<close>

record cursor_json =
  cj_timestamp :: int
  cj_lastSessionId :: "string option"
  cj_sessionsProcessed :: "nat option"
  cj_updatedAt :: "int option"

datatype db_stmt =
    InsertInto string "row list"
  | SelectFlush string
  | TransactionFlushAll
  | SelectTruncateStagingTables
  | SelectCursor
  | UpsertCursor cursor_json
  | DeleteCursor

record world =
  tables :: "string \<Rightarrow> row list"
  ingestion_state :: "string \<rightharpoonup> cursor_json \<times> int"
  trace :: "db_stmt list"

record runtime =
  db_fault :: "db_stmt list \<Rightarrow> db_stmt \<Rightarrow> string option"
  date_now :: "db_stmt list \<Rightarrow> int"

definition Date_now :: "runtime \<Rightarrow> world \<Rightarrow> int" where
  "Date_now rt w = date_now rt (trace w)"

text \<open>Sending a statement: the fault decided for it, and the world with the statement
  logged.\<close>

definition send :: "runtime \<Rightarrow> db_stmt \<Rightarrow> world \<Rightarrow> string option \<times> world" where
  "send rt stmt w = (db_fault rt (trace w) stmt, w\<lparr>trace := trace w @ [stmt]\<rparr>)"

subsection \<open>Staging inserts (store/staging.ts)\<close>

definition insertToStaging ::
  "runtime \<Rightarrow> string \<Rightarrow> row list \<Rightarrow> world \<Rightarrow> (DBError + nat) \<times> world" where
  "insertToStaging rt tbl rows w =
     (if length rows = 0 then (Inr 0, w)
      else
        (case send rt (InsertInto tbl rows) w of
           (Some c, w') \<Rightarrow>
             (Inl \<lparr>operation = op_insert_staging, db_table = Some tbl, db_cause = c\<rparr>, w')
         | (None, w') \<Rightarrow>
             (Inr (length rows), w'\<lparr>tables := (tables w')(tbl := tables w' tbl @ rows)\<rparr>)))"

definition insertSessionsStaging :: "runtime \<Rightarrow> row list \<Rightarrow> world \<Rightarrow> (DBError + nat) \<times> world" where
  "insertSessionsStaging rt rows = insertToStaging rt ''sessions_staging'' rows"

definition insertMessagesStaging :: "runtime \<Rightarrow> row list \<Rightarrow> world \<Rightarrow> (DBError + nat) \<times> world" where
  "insertMessagesStaging rt rows = insertToStaging rt ''messages_staging'' rows"

definition insertToolCallsStaging :: "runtime \<Rightarrow> row list \<Rightarrow> world \<Rightarrow> (DBError + nat) \<times> world" where
  "insertToolCallsStaging rt rows = insertToStaging rt ''tool_calls_staging'' rows"

definition insertProgressEventsStaging :: "runtime \<Rightarrow> row list \<Rightarrow> world \<Rightarrow> (DBError + nat) \<times> world" where
  "insertProgressEventsStaging rt rows = insertToStaging rt ''progress_events_staging'' rows"

definition insertQueueOperationsStaging :: "runtime \<Rightarrow> row list \<Rightarrow> world \<Rightarrow> (DBError + nat) \<times> world" where
  "insertQueueOperationsStaging rt rows = insertToStaging rt ''queue_operations_staging'' rows"

definition insertSystemEventsStaging :: "runtime \<Rightarrow> row list \<Rightarrow> world \<Rightarrow> (DBError + nat) \<times> world" where
  "insertSystemEventsStaging rt rows = insertToStaging rt ''system_events_staging'' rows"

definition insertFileHistoryStaging :: "runtime \<Rightarrow> row list \<Rightarrow> world \<Rightarrow> (DBError + nat) \<times> world" where
  "insertFileHistoryStaging rt rows = insertToStaging rt ''file_history_staging'' rows"

subsection \<open>The flush functions (migrations/002_staging)\<close>

text \<open>
  The value of the \<^verbatim>\<open>id\<close> column of a row, \<open>JNull\<close> when the row gives none.
\<close>

definition row_id :: "row \<Rightarrow> json" where
  "row_id r = (case map_of r ''id'' of None \<Rightarrow> JNull | Some v \<Rightarrow> v)"

text \<open>
  \<^verbatim>\<open>INSERT INTO target SELECT ... FROM source ON CONFLICT (id) DO NOTHING RETURNING 1\<close>,
  counted: the source rows are taken in order, a row whose \<^verbatim>\<open>id\<close> equals that of a row
  already in the target (one that was there, or one this statement has inserted) is
  dropped, every other row is appended. A \<^verbatim>\<open>NULL\<close> equals nothing in SQL, so a row
  without an \<^verbatim>\<open>id\<close> never conflicts. Each flush function selects every column of its
  staging table, so a row is copied whole.
\<close>

fun insert_on_conflict_do_nothing :: "row list \<Rightarrow> row list \<Rightarrow> nat \<times> row list" where
  "insert_on_conflict_do_nothing [] target = (0, target)"
| "insert_on_conflict_do_nothing (r # rs) target =
     (if row_id r \<noteq> JNull \<and> row_id r \<in> set (map row_id target)
      then insert_on_conflict_do_nothing rs target
      else (case insert_on_conflict_do_nothing rs (target @ [r]) of
              (n, target') \<Rightarrow> (Suc n, target')))"

text \<open>
  The body shared by the flush functions: insert-select with the conflict clause into the
  production table, return the count, \<^verbatim>\<open>TRUNCATE\<close> the staging table.
\<close>

definition flush_staging :: "string \<Rightarrow> string \<Rightarrow> world \<Rightarrow> nat \<times> world" where
  "flush_staging production stg w =
     (case insert_on_conflict_do_nothing (tables w stg) (tables w production) of
        (n, target') \<Rightarrow> (n, w\<lparr>tables := (tables w)(production := target', stg := [])\<rparr>))"

definition flush_sessions_staging :: "world \<Rightarrow> nat \<times> world" where
  "flush_sessions_staging = flush_staging ''sessions'' ''sessions_staging''"

definition flush_messages_staging :: "world \<Rightarrow> nat \<times> world" where
  "flush_messages_staging = flush_staging ''messages'' ''messages_staging''"

definition flush_tool_calls_staging :: "world \<Rightarrow> nat \<times> world" where
  "flush_tool_calls_staging = flush_staging ''tool_calls'' ''tool_calls_staging''"

definition flush_progress_events_staging :: "world \<Rightarrow> nat \<times> world" where
  "flush_progress_events_staging = flush_staging ''progress_events'' ''progress_events_staging''"

text \<open>
  Modelled from the spec: the SQL functions \<^verbatim>\<open>flush_queue_operations_staging\<close>,
  \<^verbatim>\<open>flush_system_events_staging\<close> and \<^verbatim>\<open>flush_file_history_staging\<close>, which
  \<^verbatim>\<open>flushAllStaging\<close> calls and no migration of the sources defines. The spec gives every
  destination the same flush: insert into the permanent table from the scratch table with
  the primary-key conflict clause, return the inserted count, truncate the scratch table.
\<close>

definition flush_queue_operations_staging :: "world \<Rightarrow> nat \<times> world" where
  "flush_queue_operations_staging = flush_staging ''queue_operations'' ''queue_operations_staging''"

definition flush_system_events_staging :: "world \<Rightarrow> nat \<times> world" where
  "flush_system_events_staging = flush_staging ''system_events'' ''system_events_staging''"

definition flush_file_history_staging :: "world \<Rightarrow> nat \<times> world" where
  "flush_file_history_staging = flush_staging ''file_history'' ''file_history_staging''"

text \<open>\<^verbatim>\<open>truncate_staging_tables()\<close>: the four \<^verbatim>\<open>TRUNCATE\<close> statements of its body.\<close>

definition truncate_staging_tables :: "world \<Rightarrow> world" where
  "truncate_staging_tables w =
     w\<lparr>tables := (tables w)
          (''sessions_staging'' := [],
           ''messages_staging'' := [],
           ''tool_calls_staging'' := [],
           ''progress_events_staging'' := [])\<rparr>"

subsection \<open>Flushing and truncating from the client (store/staging.ts)\<close>

record StagingFlushResult =
  sessionsInserted :: nat
  messagesInserted :: nat
  toolCallsInserted :: nat
  progressEventsInserted :: nat
  queueOperationsInserted :: nat
  systemEventsInserted :: nat
  fileHistoryInserted :: nat
  sf_durationMs :: int

text \<open>A single-table flush: one call of the table's SQL function.\<close>

definition flushTable ::
  "runtime \<Rightarrow> string \<Rightarrow> string \<Rightarrow> (world \<Rightarrow> nat \<times> world) \<Rightarrow> world \<Rightarrow> (DBError + nat) \<times> world" where
  "flushTable rt fname tbl f w =
     (case send rt (SelectFlush fname) w of
        (Some c, w') \<Rightarrow> (Inl \<lparr>operation = op_flush, db_table = Some tbl, db_cause = c\<rparr>, w')
      | (None, w') \<Rightarrow> (case f w' of (n, w'') \<Rightarrow> (Inr n, w'')))"

definition flushSessions :: "runtime \<Rightarrow> world \<Rightarrow> (DBError + nat) \<times> world" where
  "flushSessions rt = flushTable rt ''flush_sessions_staging'' ''sessions'' flush_sessions_staging"

definition flushMessages :: "runtime \<Rightarrow> world \<Rightarrow> (DBError + nat) \<times> world" where
  "flushMessages rt = flushTable rt ''flush_messages_staging'' ''messages'' flush_messages_staging"

text \<open>
  \<^verbatim>\<open>flushAllStaging\<close>: the seven flush functions in one transaction. The transaction is
  atomic: when the database fails it, nothing of it is visible and the staging tables are
  as they were; otherwise the seven functions run in the order of the source.
\<close>

definition flushAllStaging :: "runtime \<Rightarrow> world \<Rightarrow> (DBError + StagingFlushResult) \<times> world" where
  "flushAllStaging rt w =
     (let startTime = Date_now rt w in
      case send rt TransactionFlushAll w of
        (Some c, w') \<Rightarrow> (Inl \<lparr>operation = op_transaction, db_table = None, db_cause = c\<rparr>, w')
      | (None, w0) \<Rightarrow>
          (case flush_sessions_staging w0 of (sessions, w1) \<Rightarrow>
           case flush_messages_staging w1 of (messages, w2) \<Rightarrow>
           case flush_tool_calls_staging w2 of (toolCalls, w3) \<Rightarrow>
           case flush_progress_events_staging w3 of (progressEvents, w4) \<Rightarrow>
           case flush_queue_operations_staging w4 of (queueOperations, w5) \<Rightarrow>
           case flush_system_events_staging w5 of (systemEvents, w6) \<Rightarrow>
           case flush_file_history_staging w6 of (fileHistory, w7) \<Rightarrow>
             (Inr \<lparr>sessionsInserted = sessions,
                   messagesInserted = messages,
                   toolCallsInserted = toolCalls,
                   progressEventsInserted = progressEvents,
                   queueOperationsInserted = queueOperations,
                   systemEventsInserted = systemEvents,
                   fileHistoryInserted = fileHistory,
                   sf_durationMs = Date_now rt w7 - startTime\<rparr>,
              w7)))"

definition truncateAllStaging :: "runtime \<Rightarrow> world \<Rightarrow> (DBError + unit) \<times> world" where
  "truncateAllStaging rt w =
     (case send rt SelectTruncateStagingTables w of
        (Some c, w') \<Rightarrow> (Inl \<lparr>operation = op_truncate, db_table = None, db_cause = c\<rparr>, w')
      | (None, w') \<Rightarrow> (Inr (), truncate_staging_tables w'))"

subsection \<open>Cursor (store/cursor.ts)\<close>

definition CURSOR_KEY :: string where
  "CURSOR_KEY = ''last_processed_timestamp''"

record CursorValue =
  timestamp :: int
  lastSessionId :: string
  sessionsProcessed :: nat
  updatedAt :: int

definition getCursor :: "runtime \<Rightarrow> world \<Rightarrow> (DBError + CursorValue option) \<times> world" where
  "getCursor rt w =
     (case send rt SelectCursor w of
        (Some c, w') \<Rightarrow> (Inl \<lparr>operation = op_cursor_get, db_table = None, db_cause = c\<rparr>, w')
      | (None, w') \<Rightarrow>
          (case ingestion_state w' CURSOR_KEY of
             None \<Rightarrow> (Inr None, w')
           | Some (v, _) \<Rightarrow>
               (Inr (Some \<lparr>timestamp = cj_timestamp v,
                           lastSessionId = (case cj_lastSessionId v of None \<Rightarrow> '''' | Some s \<Rightarrow> s),
                           sessionsProcessed = (case cj_sessionsProcessed v of None \<Rightarrow> 0 | Some n \<Rightarrow> n),
                           updatedAt = (case cj_updatedAt v of None \<Rightarrow> Date_now rt w' | Some u \<Rightarrow> u)\<rparr>),
                w')))"

text \<open>
  \<^verbatim>\<open>setCursor(db, timestamp, sessionId?, sessionsProcessed?)\<close>: an upsert of the one key,
  \<^verbatim>\<open>ON CONFLICT (key) DO UPDATE\<close>: the stored value is replaced whatever it was.
\<close>

definition setCursor ::
  "runtime \<Rightarrow> int \<Rightarrow> string option \<Rightarrow> nat option \<Rightarrow> world \<Rightarrow> (DBError + unit) \<times> world" where
  "setCursor rt ts sessionId processed w =
     (let v = \<lparr>cj_timestamp = ts,
               cj_lastSessionId = Some (case sessionId of None \<Rightarrow> '''' | Some s \<Rightarrow> s),
               cj_sessionsProcessed = Some (case processed of None \<Rightarrow> 1 | Some n \<Rightarrow> n),
               cj_updatedAt = Some (Date_now rt w)\<rparr> in
      case send rt (UpsertCursor v) w of
        (Some c, w') \<Rightarrow> (Inl \<lparr>operation = op_cursor_set, db_table = None, db_cause = c\<rparr>, w')
      | (None, w') \<Rightarrow>
          (Inr (), w'\<lparr>ingestion_state := (ingestion_state w')(CURSOR_KEY \<mapsto> (v, Date_now rt w))\<rparr>))"

definition resetCursor :: "runtime \<Rightarrow> world \<Rightarrow> (DBError + unit) \<times> world" where
  "resetCursor rt w =
     (case send rt DeleteCursor w of
        (Some c, w') \<Rightarrow> (Inl \<lparr>operation = op_cursor_set, db_table = None, db_cause = c\<rparr>, w')
      | (None, w') \<Rightarrow> (Inr (), w'\<lparr>ingestion_state := (ingestion_state w')(CURSOR_KEY := None)\<rparr>))"

definition shouldProcessSession :: "CursorValue option \<Rightarrow> int \<Rightarrow> bool" where
  "shouldProcessSession cursor sessionMtime =
     (case cursor of None \<Rightarrow> True | Some c \<Rightarrow> sessionMtime > timestamp c)"

subsection \<open>Names used to state properties of the flush\<close>

text \<open>The seven staging tables \<^verbatim>\<open>flushAllStaging\<close> flushes, in its order.\<close>

definition staging_tables :: "string list" where
  "staging_tables =
     [''sessions_staging'', ''messages_staging'', ''tool_calls_staging'',
      ''progress_events_staging'', ''queue_operations_staging'', ''system_events_staging'',
      ''file_history_staging'']"




section \<open>Scanner (scanner/types.ts, scanner/discovery.ts, scanner/filters.ts)\<close>

text \<open>A \<^verbatim>\<open>Date\<close> is its epoch milliseconds, an integer: the dates of the scanner come
  from \<^verbatim>\<open>stat\<close> and are valid.\<close>

record SubagentFile =
  agentId :: string
  sa_path :: string
  sa_modifiedAt :: int
  sa_sizeBytes :: nat

record ToolResultFile =
  toolUseId :: string
  tr_path :: string
  tr_sizeBytes :: nat

record SessionFile =
  uuid :: string
  mainFile :: string
  projectPath :: string
  projectPathDecoded :: string
  modifiedAt :: int
  sizeBytes :: nat
  subagents :: "SubagentFile list"
  toolResults :: "ToolResultFile list"
  todoFile :: "string option"
  debugFile :: "string option"

datatype scan_error_type = io_error | parse_error | permission_error | invalid_format

record ScanError =
  se_type :: scan_error_type
  se_path :: string
  se_message :: string

record ScanResult =
  sessions :: "SessionFile list"
  errors :: "ScanError list"
  totalDiscovered :: nat
  skippedByFilter :: int
  sr_durationMs :: int


definition CLAUDE_PATHS_base :: string where
  "CLAUDE_PATHS_base = ''~/.claude''"



subsection \<open>Paths and identifiers\<close>






definition is_digit :: "char \<Rightarrow> bool" where
  "is_digit c = (c \<in> set ''0123456789'')"










subsection \<open>Discovery\<close>







subsection \<open>Filters\<close>




section \<open>Stream reader (parser/stream.ts)\<close>

datatype io_operation = io_open | io_read | io_stat

record IOError =
  io_path :: string
  io_op :: io_operation
  io_cause :: string

text \<open>
  What the file system gives for a path: the lines \<^verbatim>\<open>Stream.splitLines\<close> produces from
  the decoded bytes before the byte stream ends or fails, and the cause of the failure if
  it fails (a file that cannot be opened gives no line and a failure).
\<close>

record file_stream =
  split_lines :: "string list"
  failure :: "string option"

type_synonym FileSystem = "string \<Rightarrow> file_stream"

text \<open>The ASCII white space and line terminators \<^verbatim>\<open>trim\<close> removes; the white space
  outside ASCII is not represented in 8-bit characters.\<close>

definition js_whitespace :: "char \<Rightarrow> bool" where
  "js_whitespace c = (of_char c \<in> {9::nat, 10, 11, 12, 13, 32})"

text \<open>\<^verbatim>\<open>line.trim().length > 0\<close>\<close>

definition nonblank :: "string \<Rightarrow> bool" where
  "nonblank l = list_ex (\<lambda>c. \<not> js_whitespace c) l"

text \<open>\<^verbatim>\<open>mapAccum(0, ...)\<close>: the lines numbered from \<open>n + 1\<close>.\<close>

fun number_from :: "nat \<Rightarrow> string list \<Rightarrow> (nat \<times> string) list" where
  "number_from n [] = []"
| "number_from n (l # ls) = (n + 1, l) # number_from (n + 1) ls"

text \<open>
  \<^verbatim>\<open>streamJSONL\<close>: the numbered non-blank lines, in order, and the error the stream ends
  with, if any. The final \<^verbatim>\<open>catchAll\<close> gives every failure the operation \<^verbatim>\<open>read\<close>.
  The stream is pulled line by line: a consumer has seen every line of the list before it
  sees the error.
\<close>

definition streamJSONL :: "FileSystem \<Rightarrow> string \<Rightarrow> (nat \<times> string) list \<times> IOError option" where
  "streamJSONL fs filePath =
     (number_from 0 (filter nonblank (split_lines (fs filePath))),
      (case failure (fs filePath) of
         None \<Rightarrow> None
       | Some c \<Rightarrow> Some \<lparr>io_path = filePath, io_op = io_read, io_cause = c\<rparr>))"

section \<open>Decoder (parser/decoder.ts)\<close>

record ParseError =
  line :: nat
  content :: string
  cause :: string

text \<open>
  \<^verbatim>\<open>JSON.parse\<close> followed by the schema decoder of \<^verbatim>\<open>AnyEntry\<close> is a parameter
  \<open>parse\<close>: for a line, the typed entry or the cause of the failure of either phase.
\<close>

type_synonym parser = "string \<Rightarrow> string + AnyEntry"

definition decodeEntry :: "parser \<Rightarrow> nat \<Rightarrow> string \<Rightarrow> ParseError + AnyEntry" where
  "decodeEntry parse n l =
     (case parse l of
        Inl c \<Rightarrow> Inl \<lparr>line = n, content = take 100 l, cause = c\<rparr>
      | Inr e \<Rightarrow> Inr e)"

definition decodeEntryEither :: "parser \<Rightarrow> nat \<Rightarrow> string \<Rightarrow> ParseError + AnyEntry" where
  "decodeEntryEither parse n l = decodeEntry parse n l"

definition decodeEntryWithMetadata :: "parser \<Rightarrow> nat \<Rightarrow> string \<Rightarrow> ParseError + DecodedEntry" where
  "decodeEntryWithMetadata parse n l =
     (case decodeEntry parse n l of
        Inl e \<Rightarrow> Inl e
      | Inr e \<Rightarrow> Inr \<lparr>lineNum = n, entry = e\<rparr>)"

text \<open>The element \<^verbatim>\<open>decodeStreamResilient\<close> maps a line to.\<close>

definition decodeResilient :: "parser \<Rightarrow> nat \<times> string \<Rightarrow> ParseError + DecodedEntry" where
  "decodeResilient parse nl =
     (case decodeEntryEither parse (fst nl) (snd nl) of
        Inl e \<Rightarrow> Inl e
      | Inr e \<Rightarrow> Inr \<lparr>lineNum = fst nl, entry = e\<rparr>)"

section \<open>Ingestion (store/ingest.ts)\<close>

record IngestionStats =
  sessionId :: string
  totalEntriesProcessed :: nat
  totalStagingInserts :: nat
  totalProductionInserts :: nat
  batchCount :: nat
  parseErrors :: nat
  entriesSkipped :: nat
  totalDurationMs :: int
  startedAt :: int
  completedAt :: int

text \<open>\<^verbatim>\<open>IngestConfig\<close>. The optional \<^verbatim>\<open>onProgress\<close> callback has no error channel and no
  access to the store or the counters; it is left out.\<close>

record IngestConfig =
  cfg_batchSize :: "nat option"
  updateCursor :: "bool option"
  resilient :: "bool option"

definition DEFAULT_INGEST_CONFIG_batchSize :: nat where
  "DEFAULT_INGEST_CONFIG_batchSize = DEFAULT_STORE_BATCH_CONFIG_batchSize"

definition DEFAULT_INGEST_CONFIG_resilient :: bool where
  "DEFAULT_INGEST_CONFIG_resilient = True"

text \<open>The error channel of \<^verbatim>\<open>ingestSession\<close>: \<^verbatim>\<open>DBError | IOError | ParseError\<close>.\<close>

datatype IngestError = DBErr DBError | IOErr IOError | ParseErr ParseError

fun table_name :: "StagingTable \<Rightarrow> string" where
  "table_name sessions_staging = ''sessions_staging''"
| "table_name messages_staging = ''messages_staging''"
| "table_name tool_calls_staging = ''tool_calls_staging''"
| "table_name progress_events_staging = ''progress_events_staging''"
| "table_name queue_operations_staging = ''queue_operations_staging''"
| "table_name system_events_staging = ''system_events_staging''"
| "table_name file_history_staging = ''file_history_staging''"

text \<open>The insert function each accumulator is created with.\<close>

fun insert_fn :: "runtime \<Rightarrow> StagingTable \<Rightarrow> row list \<Rightarrow> world \<Rightarrow> (DBError + nat) \<times> world" where
  "insert_fn rt sessions_staging = insertSessionsStaging rt"
| "insert_fn rt messages_staging = insertMessagesStaging rt"
| "insert_fn rt tool_calls_staging = insertToolCallsStaging rt"
| "insert_fn rt progress_events_staging = insertProgressEventsStaging rt"
| "insert_fn rt queue_operations_staging = insertQueueOperationsStaging rt"
| "insert_fn rt system_events_staging = insertSystemEventsStaging rt"
| "insert_fn rt file_history_staging = insertFileHistoryStaging rt"

text \<open>
  \<^verbatim>\<open>Accumulators\<close>: the seven accumulators, each created for its table with the table's
  insert function and the configured batch size. The model keeps their states by table.
\<close>

definition accumulator :: "runtime \<Rightarrow> nat \<Rightarrow> StagingTable \<Rightarrow> (row, world) BatchAccumulator" where
  "accumulator rt b t =
     fst (createBatchAccumulator (table_name t) (insert_fn rt t) (Some b) (Date_now rt))"

type_synonym Accumulators = "StagingTable \<Rightarrow> row AccumulatorState"

definition new_accumulators :: Accumulators where
  "new_accumulators = (\<lambda>_. initialState)"

text \<open>\<^verbatim>\<open>processRoutedEntry\<close>: the table routed to (\<open>None\<close> for \<^verbatim>\<open>'skip'\<close>) and the
  \<^verbatim>\<open>skipped\<close> flag.\<close>

definition processRoutedEntry ::
  "runtime \<Rightarrow> nat \<Rightarrow> DecodedEntry \<Rightarrow> string \<Rightarrow> Accumulators \<Rightarrow> world
     \<Rightarrow> (DBError + StagingTable option \<times> bool) \<times> Accumulators \<times> world" where
  "processRoutedEntry rt b decoded sid accs w =
     (case routeEntry decoded sid of
        Skipped _ _ _ \<Rightarrow> (Inr (None, True), accs, w)
      | Routed t r _ \<Rightarrow>
          (case add (accumulator rt b t) r (accs t) w of
             (Inl e, st, w') \<Rightarrow> (Inl e, accs(t := st), w')
           | (Inr _, st, w') \<Rightarrow> (Inr (Some t, False), accs(t := st), w')))"

text \<open>The counters \<^verbatim>\<open>totalProcessed\<close>, \<^verbatim>\<open>skipped\<close> and \<^verbatim>\<open>parseErrors\<close>.\<close>

record counters =
  n_processed :: nat
  n_skipped :: nat
  n_parseErrors :: nat

text \<open>
  Resilient mode: the stream of decode results is drained, the tap runs on each element.
  A store error ends the run; a decode failure is counted.
\<close>

fun drain_resilient ::
  "runtime \<Rightarrow> parser \<Rightarrow> nat \<Rightarrow> string \<Rightarrow> (nat \<times> string) list \<Rightarrow> Accumulators \<Rightarrow> counters
     \<Rightarrow> world \<Rightarrow> (IngestError + Accumulators \<times> counters) \<times> world" where
  "drain_resilient rt parse b sid [] accs cs w = (Inr (accs, cs), w)"
| "drain_resilient rt parse b sid (nl # rest) accs cs w =
     (let cs1 = cs\<lparr>n_processed := n_processed cs + 1\<rparr> in
      case decodeResilient parse nl of
        Inl _ \<Rightarrow>
          drain_resilient rt parse b sid rest accs
            (cs1\<lparr>n_parseErrors := n_parseErrors cs1 + 1\<rparr>) w
      | Inr decoded \<Rightarrow>
          (case processRoutedEntry rt b decoded sid accs w of
             (Inl e, accs', w') \<Rightarrow> (Inl (DBErr e), w')
           | (Inr result, accs', w') \<Rightarrow>
               drain_resilient rt parse b sid rest accs'
                 (if snd result then cs1\<lparr>n_skipped := n_skipped cs1 + 1\<rparr> else cs1) w'))"

text \<open>Strict mode: the first decode failure ends the stream with the \<open>ParseError\<close>.\<close>

fun drain_strict ::
  "runtime \<Rightarrow> parser \<Rightarrow> nat \<Rightarrow> string \<Rightarrow> (nat \<times> string) list \<Rightarrow> Accumulators \<Rightarrow> counters
     \<Rightarrow> world \<Rightarrow> (IngestError + Accumulators \<times> counters) \<times> world" where
  "drain_strict rt parse b sid [] accs cs w = (Inr (accs, cs), w)"
| "drain_strict rt parse b sid (nl # rest) accs cs w =
     (case decodeEntryWithMetadata parse (fst nl) (snd nl) of
        Inl e \<Rightarrow> (Inl (ParseErr e), w)
      | Inr decoded \<Rightarrow>
          (let cs1 = cs\<lparr>n_processed := n_processed cs + 1\<rparr> in
           case processRoutedEntry rt b decoded sid accs w of
             (Inl e, accs', w') \<Rightarrow> (Inl (DBErr e), w')
           | (Inr result, accs', w') \<Rightarrow>
               drain_strict rt parse b sid rest accs'
                 (if snd result then cs1\<lparr>n_skipped := n_skipped cs1 + 1\<rparr> else cs1) w'))"

text \<open>Step 3: the pipeline of the chosen mode over the file; the stream's own error
  comes after its last line.\<close>

definition run_pipeline ::
  "runtime \<Rightarrow> FileSystem \<Rightarrow> parser \<Rightarrow> bool \<Rightarrow> nat \<Rightarrow> SessionFile \<Rightarrow> world
     \<Rightarrow> (IngestError + Accumulators \<times> counters) \<times> world" where
  "run_pipeline rt fs parse resil b sessionFile w =
     (case streamJSONL fs (mainFile sessionFile) of
        (lines, err) \<Rightarrow>
          (case (if resil then drain_resilient else drain_strict) rt parse b (uuid sessionFile)
                  lines new_accumulators
                  \<lparr>n_processed = 0, n_skipped = 0, n_parseErrors = 0\<rparr> w of
             (Inl e, w') \<Rightarrow> (Inl e, w')
           | (Inr r, w') \<Rightarrow>
               (case err of
                  Some io \<Rightarrow> (Inl (IOErr io), w')
                | None \<Rightarrow> (Inr r, w'))))"

text \<open>Step 4: the forced flush of each accumulator, in the order of the source.\<close>

definition accumulator_order :: "StagingTable list" where
  "accumulator_order =
     [sessions_staging, messages_staging, tool_calls_staging, progress_events_staging,
      queue_operations_staging, system_events_staging, file_history_staging]"

fun flush_remaining ::
  "runtime \<Rightarrow> nat \<Rightarrow> StagingTable list \<Rightarrow> Accumulators \<Rightarrow> world
     \<Rightarrow> (DBError + Accumulators) \<times> world" where
  "flush_remaining rt b [] accs w = (Inr accs, w)"
| "flush_remaining rt b (t # ts) accs w =
     (case flush_acc (accumulator rt b t) (accs t) w of
        (Inl e, st, w') \<Rightarrow> (Inl e, w')
      | (Inr _, st, w') \<Rightarrow> flush_remaining rt b ts (accs(t := st)) w')"

definition ingestSession ::
  "runtime \<Rightarrow> FileSystem \<Rightarrow> parser \<Rightarrow> SessionFile \<Rightarrow> IngestConfig \<Rightarrow> world
     \<Rightarrow> (IngestError + IngestionStats) \<times> world" where
  "ingestSession rt fs parse sessionFile config w =
     (let startTime = Date_now rt w;
          b = (case cfg_batchSize config of None \<Rightarrow> DEFAULT_INGEST_CONFIG_batchSize | Some n \<Rightarrow> n);
          resil = (case resilient config of None \<Rightarrow> DEFAULT_INGEST_CONFIG_resilient | Some r \<Rightarrow> r)
      in
      case truncateAllStaging rt w of
        (Inl e, w1) \<Rightarrow> (Inl (DBErr e), w1)
      | (Inr _, w1) \<Rightarrow>
      (case run_pipeline rt fs parse resil b sessionFile w1 of
        (Inl e, w2) \<Rightarrow> (Inl e, w2)
      | (Inr (accs, cs), w2) \<Rightarrow>
      (case flush_remaining rt b accumulator_order accs w2 of
        (Inl e, w3) \<Rightarrow> (Inl (DBErr e), w3)
      | (Inr accs', w3) \<Rightarrow>
      (case flushAllStaging rt w3 of
        (Inl e, w4) \<Rightarrow> (Inl (DBErr e), w4)
      | (Inr flushResult, w4) \<Rightarrow>
      (case (if updateCursor config \<noteq> Some False
             then setCursor rt (modifiedAt sessionFile) (Some (uuid sessionFile)) (Some 1) w4
             else (Inr (), w4)) of
        (Inl e, w5) \<Rightarrow> (Inl (DBErr e), w5)
      | (Inr _, w5) \<Rightarrow>
          (Inr \<lparr>sessionId = uuid sessionFile,
                totalEntriesProcessed = n_processed cs,
                totalStagingInserts = sum_list (map (\<lambda>t. totalFlushed (accs' t)) accumulator_order),
                totalProductionInserts =
                  sessionsInserted flushResult + messagesInserted flushResult
                  + toolCallsInserted flushResult + progressEventsInserted flushResult
                  + queueOperationsInserted flushResult + systemEventsInserted flushResult
                  + fileHistoryInserted flushResult,
                batchCount = sum_list (map (\<lambda>t. flushCount (accs' t)) accumulator_order),
                parseErrors = n_parseErrors cs,
                entriesSkipped = n_skipped cs,
                totalDurationMs = Date_now rt w5 - startTime,
                startedAt = startTime,
                completedAt = Date_now rt w5\<rparr>,
           w5))))))"

subsection \<open>Names used to state properties of a run\<close>

text \<open>The errors that abort a run in mid-stream: an I/O error, a decode failure, or a store
  error while staging.\<close>

fun mid_stream :: "IngestError \<Rightarrow> bool" where
  "mid_stream (IOErr _) = True"
| "mid_stream (ParseErr _) = True"
| "mid_stream (DBErr d) = (operation d = op_insert_staging)"

text \<open>The statements that touch staging tables only.\<close>

fun is_staging_stmt :: "db_stmt \<Rightarrow> bool" where
  "is_staging_stmt (InsertInto _ _) = True"
| "is_staging_stmt SelectTruncateStagingTables = True"
| "is_staging_stmt _ = False"

text \<open>The non-blank lines of a session's main file, and those among them that fail to
  decode.\<close>

definition nonblank_lines :: "FileSystem \<Rightarrow> SessionFile \<Rightarrow> string list" where
  "nonblank_lines fs sessionFile = filter nonblank (split_lines (fs (mainFile sessionFile)))"


text \<open>World \<open>w'\<close> comes from world \<open>w\<close> by statements on staging tables only: the
  statements sent since are inserts into staging tables and truncations of them, the
  cursor table and every table outside the staging tables are as they were.\<close>

definition staging_step :: "world \<Rightarrow> world \<Rightarrow> bool" where
  "staging_step w w' \<longleftrightarrow>
     (\<exists>tr. trace w' = trace w @ tr \<and> list_all is_staging_stmt tr)
     \<and> ingestion_state w' = ingestion_state w
     \<and> (\<forall>t. t \<notin> set staging_tables \<longrightarrow> tables w' t = tables w t)"


section \<open>Example inputs\<close>

text \<open>A runtime whose database accepts every statement, with a clock that stands still.\<close>

definition rt_ok :: runtime where
  "rt_ok = \<lparr>db_fault = (\<lambda>_ _. None), date_now = (\<lambda>_. 0)\<rparr>"

text \<open>An empty database.\<close>

definition w_empty :: world where
  "w_empty = \<lparr>tables = (\<lambda>_. []), ingestion_state = Map.empty, trace = []\<rparr>"





text \<open>A parser that knows three lines: a user message, a queue operation and a custom
  title; every other line fails to parse.\<close>

definition parse_ex :: parser where
  "parse_ex l =
     (if l = ''user-line'' then
        Inr (User \<lparr>u_timestamp = ''2026-01-01T00:00:00Z'', u_content = ContentString ''hi'',
                   u_uuid = Some ''m1'', u_parentUuid = None, u_isSidechain = None,
                   u_version = None, u_slug = None, u_cwd = None, u_gitBranch = None,
                   u_userType = None\<rparr>)
      else if l = ''queue-line'' then
        Inr (QueueOperation \<lparr>q_timestamp = ''2026-01-01T00:00:01Z'', q_operation = ''enqueue'',
                             q_content = ''task''\<rparr>)
      else Inl ''SyntaxError'')"

text \<open>A file system with one session file of four lines: a user message, a blank line,
  a broken line and a queue operation. Any other path cannot be opened.\<close>

definition fs_ex :: FileSystem where
  "fs_ex p =
     (if p = ''/r/-p/11111111-1111-4111-8111-111111111111.jsonl''
      then \<lparr>split_lines = [''user-line'', ''  '', ''{broken'', ''queue-line''], failure = None\<rparr>
      else \<lparr>split_lines = [], failure = Some ''ENOENT''\<rparr>)"

definition sf_ex :: SessionFile where
  "sf_ex =
     \<lparr>uuid = ''11111111-1111-4111-8111-111111111111'',
      mainFile = ''/r/-p/11111111-1111-4111-8111-111111111111.jsonl'',
      projectPath = ''/r/-p'', projectPathDecoded = ''/p'', modifiedAt = 30, sizeBytes = 40,
      subagents = [], toolResults = [], todoFile = None, debugFile = None\<rparr>"

text \<open>The same session with its main file gone.\<close>

definition sf_missing :: SessionFile where
  "sf_missing = sf_ex\<lparr>mainFile := ''/r/-p/gone.jsonl''\<rparr>"

definition cfg_default :: IngestConfig where
  "cfg_default = \<lparr>cfg_batchSize = None, updateCursor = None, resilient = None\<rparr>"

definition cfg_strict :: IngestConfig where
  "cfg_strict = \<lparr>cfg_batchSize = None, updateCursor = None, resilient = Some False\<rparr>"

text \<open>A runtime whose database fails the flush transaction and accepts everything else.\<close>

definition rt_flush_fails :: runtime where
  "rt_flush_fails =
     \<lparr>db_fault = (\<lambda>_ s. if s = TransactionFlushAll then Some ''deadlock detected'' else None),
      date_now = (\<lambda>_. 0)\<rparr>"

text \<open>A database whose cursor stands at timestamp 20.\<close>

definition w_cursor_20 :: world where
  "w_cursor_20 =
     \<lparr>tables = (\<lambda>_. []),
      ingestion_state =
        [CURSOR_KEY \<mapsto>
           (\<lparr>cj_timestamp = 20, cj_lastSessionId = Some ''s0'', cj_sessionsProcessed = Some 1,
             cj_updatedAt = Some 0\<rparr>, 0)],
      trace = []\<rparr>"

text \<open>A runtime whose database fails every insert and accepts everything else, and a
  configuration with batch size 1.\<close>

definition rt_insert_fails :: runtime where
  "rt_insert_fails =
     \<lparr>db_fault = (\<lambda>_ s. case s of InsertInto _ _ \<Rightarrow> Some ''connection lost'' | _ \<Rightarrow> None),
      date_now = (\<lambda>_. 0)\<rparr>"

definition cfg_batch_1 :: IngestConfig where
  "cfg_batch_1 = \<lparr>cfg_batchSize = Some 1, updateCursor = None, resilient = None\<rparr>"

section \<open>Routing is total and exhaustive\<close>

lemma routeEntry_known:
  assumes "entry_type (entry d) \<in> Some ` set EntryType"
  shows "isRouted (routeEntry d sid)"
  using assms by (auto simp: EntryType_def routeEntry_def isRouted_def Let_def)

lemma routeEntry_unknown:
  assumes "entry_type (entry d) \<notin> Some ` set EntryType"
  shows "routeEntry d sid =
           Skipped (''Unknown entry type: '' @ type_or_undefined (entry d))
                   (type_or_undefined (entry d)) (lineNum d)"
  using assms by (auto simp: EntryType_def routeEntry_def Let_def)

text \<open>
  C3. \<open>routeEntry\<close> returns exactly one routed row or exactly one skipped record, never
  both and never neither. For each of the eight kinds of \<open>EntryType\<close> it returns a routed
  row; for an entry whose kind is outside the eight it returns a skip that records the
  kind, as the entry type and at the end of the reason (a value without a type field is
  recorded as \<^verbatim>\<open>undefined\<close>), with the line number of the record.
\<close>

theorem routeEntry_exhaustive:
  "(isRouted (routeEntry d sid) \<noteq> isSkipped (routeEntry d sid))
   \<and> (entry_type (entry d) \<in> Some ` set EntryType \<longrightarrow>
        isRouted (routeEntry d sid) \<and> \<not> isSkipped (routeEntry d sid))
   \<and> (entry_type (entry d) \<notin> Some ` set EntryType \<longrightarrow>
        isSkipped (routeEntry d sid)
        \<and> k_entryType (routeEntry d sid) = type_or_undefined (entry d)
        \<and> k_reason (routeEntry d sid) = ''Unknown entry type: '' @ type_or_undefined (entry d)
        \<and> k_lineNum (routeEntry d sid) = lineNum d)
   \<and> (entry_type (entry d) = Some k \<and> k \<notin> set EntryType \<longrightarrow>
        routeEntry d sid = Skipped (''Unknown entry type: '' @ k) k (lineNum d))"
proof -
  have one: "isRouted r \<noteq> isSkipped r" for r
    by (cases r) (simp_all add: isRouted_def isSkipped_def)
  have known: "isRouted (routeEntry d sid) \<and> \<not> isSkipped (routeEntry d sid)"
    if "entry_type (entry d) \<in> Some ` set EntryType"
    using routeEntry_known [OF that, of sid] one [of "routeEntry d sid"] by simp
  have unknown: "isSkipped (routeEntry d sid)
        \<and> k_entryType (routeEntry d sid) = type_or_undefined (entry d)
        \<and> k_reason (routeEntry d sid) = ''Unknown entry type: '' @ type_or_undefined (entry d)
        \<and> k_lineNum (routeEntry d sid) = lineNum d"
    if "entry_type (entry d) \<notin> Some ` set EntryType"
    using routeEntry_unknown [OF that, of sid] by (simp add: isSkipped_def)
  have named: "routeEntry d sid = Skipped (''Unknown entry type: '' @ k) k (lineNum d)"
    if "entry_type (entry d) = Some k \<and> k \<notin> set EntryType"
  proof -
    from that have "entry_type (entry d) \<notin> Some ` set EntryType" by auto
    from routeEntry_unknown [OF this, of sid] that show ?thesis
      by (simp add: type_or_undefined_def)
  qed
  from one known unknown named show ?thesis by blast
qed

theorem routeEntry_exhaustive_witness:
  "entry_type (entry \<lparr>lineNum = 1, entry = CustomTitle \<lparr>c_timestamp = ''t'', c_title = ''x''\<rparr>\<rparr>)
     \<in> Some ` set EntryType
   \<and> isRouted (routeEntry
        \<lparr>lineNum = 1, entry = CustomTitle \<lparr>c_timestamp = ''t'', c_title = ''x''\<rparr>\<rparr> ''s'')
   \<and> entry_type (entry \<lparr>lineNum = 2, entry = OtherEntry (Some ''attachment'')\<rparr>)
     \<notin> Some ` set EntryType
   \<and> routeEntry \<lparr>lineNum = 2, entry = OtherEntry (Some ''attachment'')\<rparr> ''s''
     = Skipped ''Unknown entry type: attachment'' ''attachment'' 2"
  using routeEntry_exhaustive
          [of "\<lparr>lineNum = 1, entry = CustomTitle \<lparr>c_timestamp = ''t'', c_title = ''x''\<rparr>\<rparr>" "''s''"]
        routeEntry_exhaustive
          [of "\<lparr>lineNum = 2, entry = OtherEntry (Some ''attachment'')\<rparr>" "''s''" "''attachment''"]
  by (simp add: EntryType_def)


section \<open>The custom-title row\<close>

text \<open>
  C10. A custom-title record is routed to \<^verbatim>\<open>sessions_staging\<close> with a row whose only
  field is \<^verbatim>\<open>custom_title\<close>: the row has no \<^verbatim>\<open>id\<close> and no \<^verbatim>\<open>session_id\<close> column and
  is the same for every session identifier, although \<^verbatim>\<open>id\<close> is a required
  (\<^verbatim>\<open>NOT NULL\<close>, no default) column of \<^verbatim>\<open>sessions_staging\<close>. The row of every other
  routed kind carries the session identifier, as \<^verbatim>\<open>session_id\<close> or, for a summary, as
  \<^verbatim>\<open>id\<close>.
\<close>

theorem custom_title_row_unkeyed:
  "routeEntry \<lparr>lineNum = n, entry = CustomTitle c\<rparr> sid
     = Routed sessions_staging [(''custom_title'', JStr (c_title c))] n
   \<and> map fst (r_row (routeEntry \<lparr>lineNum = n, entry = CustomTitle c\<rparr> sid)) = [''custom_title'']
   \<and> map_of (r_row (routeEntry \<lparr>lineNum = n, entry = CustomTitle c\<rparr> sid)) ''id'' = None
   \<and> map_of (r_row (routeEntry \<lparr>lineNum = n, entry = CustomTitle c\<rparr> sid)) ''session_id'' = None
   \<and> routeEntry \<lparr>lineNum = n, entry = CustomTitle c\<rparr> sid
     = routeEntry \<lparr>lineNum = n, entry = CustomTitle c\<rparr> sid'
   \<and> ''id'' \<in> set (required_columns sessions_staging_columns)
   \<and> map_of (r_row (routeEntry \<lparr>lineNum = n, entry = User u\<rparr> sid)) ''session_id''
     = Some (JStr sid)
   \<and> map_of (r_row (routeEntry \<lparr>lineNum = n, entry = Assistant a\<rparr> sid)) ''session_id''
     = Some (JStr sid)
   \<and> map_of (r_row (routeEntry \<lparr>lineNum = n, entry = Progress p\<rparr> sid)) ''session_id''
     = Some (JStr sid)
   \<and> map_of (r_row (routeEntry \<lparr>lineNum = n, entry = FileHistorySnapshot f\<rparr> sid)) ''session_id''
     = Some (JStr sid)
   \<and> map_of (r_row (routeEntry \<lparr>lineNum = n, entry = QueueOperation q\<rparr> sid)) ''session_id''
     = Some (JStr sid)
   \<and> map_of (r_row (routeEntry \<lparr>lineNum = n, entry = System y\<rparr> sid)) ''session_id''
     = Some (JStr sid)
   \<and> map_of (r_row (routeEntry \<lparr>lineNum = n, entry = Summary s\<rparr> sid)) ''id''
     = Some (JStr sid)"
  by (simp add: routeEntry_def required_columns_def sessions_staging_columns_def mk_column_def)

section \<open>The accumulator threshold\<close>

lemma add_below:
  assumes "Suc (length (items st)) < batchSize acc"
  shows "add acc x st s = (Inr None, st\<lparr>items := items st @ [x]\<rparr>, s)"
  using assms by (simp add: add_def Let_def)

lemma add_reach:
  assumes "Suc (length (items st)) \<ge> batchSize acc"
  shows "add acc x st s =
     (case flushFn acc (items st @ [x]) s of
        (Inl e, s') \<Rightarrow> (Inl e, st\<lparr>items := items st @ [x]\<rparr>, s')
      | (Inr n, s') \<Rightarrow>
          (Inr (Some \<lparr>insertedCount = n, fr_table = tableName acc,
                      fr_durationMs = acc_now acc s' - acc_now acc s\<rparr>),
           \<lparr>items = [], totalFlushed = totalFlushed st + n, flushCount = flushCount st + 1\<rparr>,
           s'))"
  using assms by (auto simp: add_def doFlush_def Let_def split: prod.splits sum.splits)

lemma addMany_loop_below:
  "length (items st) + length xs < batchSize acc \<Longrightarrow>
   addMany_loop acc xs rs st s = (Inr rs, st\<lparr>items := items st @ xs\<rparr>, s)"
proof (induction xs arbitrary: st)
  case Nil
  then show ?case by simp
next
  case (Cons x xs)
  from Cons.prems have "Suc (length (items st)) < batchSize acc" by simp
  then have a: "add acc x st s = (Inr None, st\<lparr>items := items st @ [x]\<rparr>, s)"
    by (rule add_below)
  from Cons.prems
  have "length (items (st\<lparr>items := items st @ [x]\<rparr>)) + length xs < batchSize acc" by simp
  from Cons.IH [OF this] a show ?case by simp
qed

lemma addMany_loop_snoc:
  "addMany_loop acc (xs @ [y]) rs st s =
     (case addMany_loop acc xs rs st s of
        (Inl e, st', s') \<Rightarrow> (Inl e, st', s')
      | (Inr rs', st', s') \<Rightarrow> addMany_loop acc [y] rs' st' s')"
proof (induction xs arbitrary: rs st s)
  case Nil
  then show ?case by simp
next
  case (Cons x xs)
  show ?case
    by (simp add: Cons.IH split: prod.splits sum.splits option.splits)
qed

lemma addMany_loop_last:
  assumes "batchSize acc = Suc (length (items st) + length ys)"
  shows "addMany_loop acc (ys @ [y]) rs st s =
     (case flushFn acc (items st @ ys @ [y]) s of
        (Inl e, s') \<Rightarrow> (Inl e, st\<lparr>items := items st @ ys @ [y]\<rparr>, s')
      | (Inr n, s') \<Rightarrow>
          (Inr (rs @ [\<lparr>insertedCount = n, fr_table = tableName acc,
                      fr_durationMs = acc_now acc s' - acc_now acc s\<rparr>]),
           \<lparr>items = [], totalFlushed = totalFlushed st + n, flushCount = flushCount st + 1\<rparr>,
           s'))"
proof -
  let ?st = "st\<lparr>items := items st @ ys\<rparr>"
  from assms have "length (items st) + length ys < batchSize acc" by simp
  then have below: "addMany_loop acc ys rs st s = (Inr rs, ?st, s)"
    by (rule addMany_loop_below)
  from assms have "Suc (length (items ?st)) \<ge> batchSize acc" by simp
  note reach = add_reach [OF this, of y s]
  have "addMany_loop acc (ys @ [y]) rs st s = addMany_loop acc [y] rs ?st s"
    by (simp add: addMany_loop_snoc below)
  also have "\<dots> = (case flushFn acc (items st @ ys @ [y]) s of
        (Inl e, s') \<Rightarrow> (Inl e, st\<lparr>items := items st @ ys @ [y]\<rparr>, s')
      | (Inr n, s') \<Rightarrow>
          (Inr (rs @ [\<lparr>insertedCount = n, fr_table = tableName acc,
                      fr_durationMs = acc_now acc s' - acc_now acc s\<rparr>]),
           \<lparr>items = [], totalFlushed = totalFlushed st + n, flushCount = flushCount st + 1\<rparr>,
           s'))"
    unfolding addMany_loop.simps reach
    by (simp split: prod.splits sum.splits)
  finally show ?thesis .
qed

lemma addMany_exact:
  assumes "0 < batchSize acc" and "length xs = batchSize acc"
  shows "addMany acc xs initialState s =
     (case flushFn acc xs s of
        (Inl e, s') \<Rightarrow> (Inl e, \<lparr>items = xs, totalFlushed = 0, flushCount = 0\<rparr>, s')
      | (Inr n, s') \<Rightarrow>
          (Inr [\<lparr>insertedCount = n, fr_table = tableName acc,
                 fr_durationMs = acc_now acc s' - acc_now acc s\<rparr>],
           \<lparr>items = [], totalFlushed = n, flushCount = 1\<rparr>, s'))"
proof -
  from assms obtain ys y where xs: "xs = ys @ [y]"
    by (cases xs rule: rev_cases) auto
  with assms
  have "batchSize acc = Suc (length (items (initialState :: 'a AccumulatorState)) + length ys)"
    by (simp add: initialState_def)
  from addMany_loop_last [OF this, of y "[]" s] show ?thesis
    by (simp add: addMany_def xs initialState_def split: prod.splits sum.splits)
qed

lemma addMany_one_more:
  assumes "1 < batchSize acc" and "length xs = batchSize acc"
  shows "addMany acc (xs @ [z]) initialState s =
     (case flushFn acc xs s of
        (Inl e, s') \<Rightarrow> (Inl e, \<lparr>items = xs, totalFlushed = 0, flushCount = 0\<rparr>, s')
      | (Inr n, s') \<Rightarrow>
          (Inr [\<lparr>insertedCount = n, fr_table = tableName acc,
                 fr_durationMs = acc_now acc s' - acc_now acc s\<rparr>],
           \<lparr>items = [z], totalFlushed = n, flushCount = 1\<rparr>, s'))"
proof -
  from assms have pos: "0 < batchSize acc" by simp
  have below: "add acc z \<lparr>items = [], totalFlushed = n, flushCount = Suc 0\<rparr> s' =
      (Inr None, \<lparr>items = [z], totalFlushed = n, flushCount = Suc 0\<rparr>, s')" for n s'
    using assms(1) add_below [of "\<lparr>items = [], totalFlushed = n, flushCount = Suc 0\<rparr>" acc z s']
    by simp
  have step: "addMany acc (xs @ [z]) initialState s =
     (case addMany acc xs initialState s of
        (Inl e, st', s') \<Rightarrow> (Inl e, st', s')
      | (Inr rs', st', s') \<Rightarrow> addMany_loop acc [z] rs' st' s')"
    by (simp add: addMany_def addMany_loop_snoc)
  obtain r s' where f: "flushFn acc xs s = (r, s')" by (cases "flushFn acc xs s")
  show ?thesis
  proof (cases r)
    case (Inl e)
    with f addMany_exact [OF pos assms(2), of s] show ?thesis
      by (simp add: step)
  next
    case (Inr n)
    with f addMany_exact [OF pos assms(2), of s] show ?thesis
      by (simp add: step below)
  qed
qed

lemma flush_empty:
  "items st = [] \<Longrightarrow> flush_acc acc st s =
     (Inr \<lparr>insertedCount = 0, fr_table = tableName acc, fr_durationMs = 0\<rparr>, st, s)"
  by (simp add: flush_acc_def doFlush_def)

text \<open>
  C6, as amended. For a batch size \<open>B \<ge> 1\<close>, adding exactly \<open>B\<close> items to a fresh
  accumulator calls the flush function exactly once, on those \<open>B\<close> rows: when it accepts
  them the buffer is empty, the flush count is 1 and the one flush result carries its
  count; when it fails the error is returned and the rows stay buffered. For \<open>B \<ge> 2\<close>,
  adding \<open>B + 1\<close> items makes the same single flush of the first \<open>B\<close> rows and leaves the
  last item buffered. A forced flush of an empty buffer returns an inserted count of 0 and
  changes neither the accumulator nor the store.
\<close>

theorem accumulator_threshold:
  "(0 < batchSize acc \<and> length xs = batchSize acc \<longrightarrow>
      addMany acc xs initialState s =
        (case flushFn acc xs s of
           (Inl e, s') \<Rightarrow> (Inl e, \<lparr>items = xs, totalFlushed = 0, flushCount = 0\<rparr>, s')
         | (Inr n, s') \<Rightarrow>
             (Inr [\<lparr>insertedCount = n, fr_table = tableName acc,
                    fr_durationMs = acc_now acc s' - acc_now acc s\<rparr>],
              \<lparr>items = [], totalFlushed = n, flushCount = 1\<rparr>, s')))
   \<and> (1 < batchSize acc \<and> length xs = batchSize acc \<longrightarrow>
      addMany acc (xs @ [z]) initialState s =
        (case flushFn acc xs s of
           (Inl e, s') \<Rightarrow> (Inl e, \<lparr>items = xs, totalFlushed = 0, flushCount = 0\<rparr>, s')
         | (Inr n, s') \<Rightarrow>
             (Inr [\<lparr>insertedCount = n, fr_table = tableName acc,
                    fr_durationMs = acc_now acc s' - acc_now acc s\<rparr>],
              \<lparr>items = [z], totalFlushed = n, flushCount = 1\<rparr>, s')))
   \<and> (items st = [] \<longrightarrow>
      flush_acc acc st s =
        (Inr \<lparr>insertedCount = 0, fr_table = tableName acc, fr_durationMs = 0\<rparr>, st, s))"
  using addMany_exact [of acc xs s] addMany_one_more [of acc xs z s] flush_empty [of st acc s]
  by blast

theorem accumulator_threshold_witness:
  "0 < batchSize (fst (createBatchAccumulator ''t'' recordingFlush (Some 2) (\<lambda>_. 0)))
   \<and> length [1::nat, 2] = batchSize (fst (createBatchAccumulator ''t'' recordingFlush (Some 2) (\<lambda>_. 0)))
   \<and> addMany (fst (createBatchAccumulator ''t'' recordingFlush (Some 2) (\<lambda>_. 0)))
        [1::nat, 2] initialState []
      = (Inr [\<lparr>insertedCount = 2, fr_table = ''t'', fr_durationMs = 0\<rparr>],
         \<lparr>items = [], totalFlushed = 2, flushCount = 1\<rparr>, [[1, 2]])
   \<and> addMany (fst (createBatchAccumulator ''t'' recordingFlush (Some 2) (\<lambda>_. 0)))
        ([1::nat, 2] @ [3]) initialState []
      = (Inr [\<lparr>insertedCount = 2, fr_table = ''t'', fr_durationMs = 0\<rparr>],
         \<lparr>items = [3], totalFlushed = 2, flushCount = 1\<rparr>, [[1, 2]])
   \<and> flush_acc (fst (createBatchAccumulator ''t'' recordingFlush (Some 2) (\<lambda>_. 0)))
        (initialState :: nat AccumulatorState) ([] :: nat list list)
      = (Inr \<lparr>insertedCount = 0, fr_table = ''t'', fr_durationMs = 0\<rparr>, initialState, [])"
  using accumulator_threshold
          [of "fst (createBatchAccumulator ''t'' recordingFlush (Some 2) (\<lambda>_. 0))"
              "[1::nat, 2]" "[]" 3 "initialState"]
  by (simp add: createBatchAccumulator_def recordingFlush_def initialState_def)

text \<open>
  With batch size 1 the claim as stated fails: adding \<open>B + 1 = 2\<close> items flushes twice, one
  row each time, and leaves nothing buffered.
\<close>

theorem accumulator_threshold_counterexample:
  "addMany (fst (createBatchAccumulator ''t'' recordingFlush (Some 1) (\<lambda>_. 0)))
        [10::nat, 20] initialState []
      = (Inr [\<lparr>insertedCount = 1, fr_table = ''t'', fr_durationMs = 0\<rparr>,
              \<lparr>insertedCount = 1, fr_table = ''t'', fr_durationMs = 0\<rparr>],
         \<lparr>items = [], totalFlushed = 2, flushCount = 2\<rparr>, [[10], [20]])
   \<and> flushCount (fst (snd (addMany (fst (createBatchAccumulator ''t'' recordingFlush (Some 1) (\<lambda>_. 0)))
        [10::nat, 20] initialState []))) \<noteq> 1
   \<and> length (items (fst (snd (addMany (fst (createBatchAccumulator ''t'' recordingFlush (Some 1) (\<lambda>_. 0)))
        [10::nat, 20] initialState [])))) \<noteq> 1"
  by (simp add: addMany_def add_def doFlush_def createBatchAccumulator_def recordingFlush_def
      initialState_def)

section \<open>Idempotence of the flush\<close>

























section \<open>Truncating the staging tables\<close>



section \<open>The cursor\<close>

lemma setCursor_ok:
  "fst (setCursor rt ts sid n w) = Inr () \<Longrightarrow>
     ingestion_state (snd (setCursor rt ts sid n w)) CURSOR_KEY =
       Some (\<lparr>cj_timestamp = ts,
               cj_lastSessionId = Some (case sid of None \<Rightarrow> '''' | Some s \<Rightarrow> s),
               cj_sessionsProcessed = Some (case n of None \<Rightarrow> 1 | Some k \<Rightarrow> k),
               cj_updatedAt = Some (Date_now rt w)\<rparr>, Date_now rt w)"
  by (auto simp: setCursor_def send_def Let_def split: option.splits)

lemma getCursor_ok:
  "fst (getCursor rt w) = Inr c \<Longrightarrow> ingestion_state w CURSOR_KEY = Some (v, u) \<Longrightarrow>
     cj_updatedAt v \<noteq> None \<Longrightarrow>
     c = Some \<lparr>timestamp = cj_timestamp v,
               lastSessionId = (case cj_lastSessionId v of None \<Rightarrow> '''' | Some s \<Rightarrow> s),
               sessionsProcessed = (case cj_sessionsProcessed v of None \<Rightarrow> 0 | Some n \<Rightarrow> n),
               updatedAt = the (cj_updatedAt v)\<rparr>"
  by (auto simp: getCursor_def send_def split: option.splits)

text \<open>
  C7, as amended. \<^verbatim>\<open>setCursor\<close> followed by \<^verbatim>\<open>getCursor\<close> returns exactly the cursor
  that was set: the given timestamp, the identifier (\<^verbatim>\<open>''\<close> when omitted), the count (1
  when omitted) and the time of the update, whatever the previous cursor was; so it is
  greater than or equal to the previous cursor exactly when the timestamp set is.
  \<^verbatim>\<open>shouldProcessSession\<close> is true when the cursor is absent, false for every candidate
  timestamp less than or equal to the cursor's timestamp and true for every candidate
  strictly greater.
\<close>

theorem cursor_set_get:
  "(fst (setCursor rt ts sid n w) = Inr ()
      \<and> fst (getCursor rt (snd (setCursor rt ts sid n w))) = Inr c \<longrightarrow>
        c = Some \<lparr>timestamp = ts,
                  lastSessionId = (case sid of None \<Rightarrow> '''' | Some s \<Rightarrow> s),
                  sessionsProcessed = (case n of None \<Rightarrow> 1 | Some k \<Rightarrow> k),
                  updatedAt = Date_now rt w\<rparr>)
   \<and> shouldProcessSession None t
   \<and> (t \<le> timestamp cur \<longrightarrow> \<not> shouldProcessSession (Some cur) t)
   \<and> (timestamp cur < t \<longrightarrow> shouldProcessSession (Some cur) t)"
proof -
  have A: "c = Some \<lparr>timestamp = ts,
                  lastSessionId = (case sid of None \<Rightarrow> '''' | Some s \<Rightarrow> s),
                  sessionsProcessed = (case n of None \<Rightarrow> 1 | Some k \<Rightarrow> k),
                  updatedAt = Date_now rt w\<rparr>"
    if s: "fst (setCursor rt ts sid n w) = Inr ()"
      and g: "fst (getCursor rt (snd (setCursor rt ts sid n w))) = Inr c"
    using getCursor_ok [OF g setCursor_ok [OF s]] by simp
  then show ?thesis
    by (auto simp: shouldProcessSession_def)
qed

theorem cursor_set_get_witness:
  "fst (setCursor rt_ok 20 (Some ''s2'') (Some 1) w_empty) = Inr ()
   \<and> fst (getCursor rt_ok (snd (setCursor rt_ok 20 (Some ''s2'') (Some 1) w_empty)))
       = Inr (Some \<lparr>timestamp = 20, lastSessionId = ''s2'', sessionsProcessed = 1, updatedAt = 0\<rparr>)
   \<and> shouldProcessSession None 20
   \<and> \<not> shouldProcessSession
          (Some \<lparr>timestamp = 20, lastSessionId = ''s2'', sessionsProcessed = 1, updatedAt = 0\<rparr>) 20
   \<and> shouldProcessSession
          (Some \<lparr>timestamp = 20, lastSessionId = ''s2'', sessionsProcessed = 1, updatedAt = 0\<rparr>) 21"
  using cursor_set_get [of rt_ok 20 "Some ''s2''" "Some 1" w_empty
      "Some \<lparr>timestamp = 20, lastSessionId = ''s2'', sessionsProcessed = 1, updatedAt = 0\<rparr>"
      20 "\<lparr>timestamp = 20, lastSessionId = ''s2'', sessionsProcessed = 1, updatedAt = 0\<rparr>"]
    cursor_set_get [of rt_ok 20 "Some ''s2''" "Some 1" w_empty
      "Some \<lparr>timestamp = 20, lastSessionId = ''s2'', sessionsProcessed = 1, updatedAt = 0\<rparr>"
      21 "\<lparr>timestamp = 20, lastSessionId = ''s2'', sessionsProcessed = 1, updatedAt = 0\<rparr>"]
  by (simp add: setCursor_def getCursor_def send_def rt_ok_def w_empty_def Date_now_def
      CURSOR_KEY_def Let_def)

text \<open>
  Setting a cursor older than the current one moves the cursor back: after a cursor with
  timestamp 20, \<^verbatim>\<open>setCursor\<close> with timestamp 10 makes \<^verbatim>\<open>getCursor\<close> return 10.
\<close>

theorem cursor_monotone_counterexample:
  "fst (getCursor rt_ok (snd (setCursor rt_ok 20 (Some ''s2'') (Some 1) w_empty)))
     = Inr (Some \<lparr>timestamp = 20, lastSessionId = ''s2'', sessionsProcessed = 1, updatedAt = 0\<rparr>)
   \<and> fst (getCursor rt_ok
        (snd (setCursor rt_ok 10 (Some ''s1'') (Some 1)
           (snd (setCursor rt_ok 20 (Some ''s2'') (Some 1) w_empty)))))
     = Inr (Some \<lparr>timestamp = 10, lastSessionId = ''s1'', sessionsProcessed = 1, updatedAt = 0\<rparr>)
   \<and> \<not> (timestamp \<lparr>timestamp = 20, lastSessionId = ''s2'', sessionsProcessed = 1, updatedAt = 0\<rparr>
         \<le> timestamp \<lparr>timestamp = 10, lastSessionId = ''s1'', sessionsProcessed = 1, updatedAt = 0\<rparr>)"
  by (simp add: setCursor_def getCursor_def send_def rt_ok_def w_empty_def Date_now_def
      CURSOR_KEY_def Let_def)


section \<open>Scan order and the since filter\<close>












section \<open>Aborted runs\<close>

lemma staging_step_refl: "staging_step w w"
  by (simp add: staging_step_def)

lemma staging_step_trans: "staging_step w w1 \<Longrightarrow> staging_step w1 w2 \<Longrightarrow> staging_step w w2"
  by (auto simp: staging_step_def)

lemma table_name_staging: "table_name t \<in> set staging_tables"
  by (cases t) (simp_all add: staging_tables_def)

lemma insert_fn_eq: "insert_fn rt t = insertToStaging rt (table_name t)"
  by (cases t)
     (simp_all add: insertSessionsStaging_def insertMessagesStaging_def
        insertToolCallsStaging_def insertProgressEventsStaging_def
        insertQueueOperationsStaging_def insertSystemEventsStaging_def
        insertFileHistoryStaging_def fun_eq_iff)

lemma insert_fn_step:
  assumes "insert_fn rt t rows w = (r, w')"
  shows "staging_step w w'" and "r = Inl e \<Longrightarrow> operation e = op_insert_staging"
  using assms table_name_staging [of t]
  by (auto simp: insert_fn_eq insertToStaging_def send_def staging_step_def
      split: if_splits option.splits)

lemma doFlush_step:
  assumes "doFlush (accumulator rt b t) st w = (r, st', w')"
  shows "staging_step w w'" and "r = Inl e \<Longrightarrow> operation e = op_insert_staging"
proof -
  have f: "flushFn (accumulator rt b t) = insert_fn rt t"
    by (simp add: accumulator_def createBatchAccumulator_def)
  show "staging_step w w'"
    using assms insert_fn_step(1) [of rt t "items st" w]
    by (auto simp: doFlush_def f Let_def staging_step_refl split: if_splits prod.splits sum.splits)
  show "r = Inl e \<Longrightarrow> operation e = op_insert_staging"
    using assms insert_fn_step(2) [of rt t "items st" w]
    by (auto simp: doFlush_def f Let_def split: if_splits prod.splits sum.splits)
qed

lemma add_step:
  assumes "add (accumulator rt b t) x st w = (r, st', w')"
  shows "staging_step w w'" and "r = Inl e \<Longrightarrow> operation e = op_insert_staging"
proof -
  let ?st = "st\<lparr>items := items st @ [x]\<rparr>"
  show "staging_step w w'"
    using assms doFlush_step(1) [of rt b t ?st w]
    by (auto simp: add_def Let_def staging_step_refl split: if_splits prod.splits sum.splits)
  show "r = Inl e \<Longrightarrow> operation e = op_insert_staging"
    using assms doFlush_step(2) [of rt b t ?st w]
    by (auto simp: add_def Let_def split: if_splits prod.splits sum.splits)
qed

lemma processRoutedEntry_step:
  assumes "processRoutedEntry rt b d sid accs w = (r, accs', w')"
  shows "staging_step w w'" and "r = Inl e \<Longrightarrow> operation e = op_insert_staging"
proof -
  show "staging_step w w'"
    using assms add_step(1) [of rt b]
    by (auto simp: processRoutedEntry_def staging_step_refl
        split: RouteResult.splits prod.splits sum.splits)
  show "r = Inl e \<Longrightarrow> operation e = op_insert_staging"
    using assms add_step(2) [of rt b]
    by (auto simp: processRoutedEntry_def split: RouteResult.splits prod.splits sum.splits)
qed

lemma drain_resilient_step:
  "drain_resilient rt parse b sid ls accs cs w = (r, w') \<Longrightarrow>
     staging_step w w' \<and> (\<forall>e. r = Inl e \<longrightarrow> (\<exists>d. e = DBErr d \<and> operation d = op_insert_staging))"
proof (induction ls arbitrary: accs cs w)
  case Nil
  then show ?case by (auto simp: staging_step_refl)
next
  case (Cons nl rest)
  let ?cs1 = "cs\<lparr>n_processed := n_processed cs + 1\<rparr>"
  show ?case
  proof (cases "decodeResilient parse nl")
    case (Inl pe)
    with Cons.prems
    have "drain_resilient rt parse b sid rest accs (?cs1\<lparr>n_parseErrors := n_parseErrors ?cs1 + 1\<rparr>) w = (r, w')"
      by (simp add: Let_def)
    from Cons.IH [OF this] show ?thesis .
  next
    case (Inr d)
    obtain pr accs1 w1 where p: "processRoutedEntry rt b d sid accs w = (pr, accs1, w1)"
      by (cases "processRoutedEntry rt b d sid accs w")
    note st = processRoutedEntry_step [OF p]
    show ?thesis
    proof (cases pr)
      case (Inl e)
      with Cons.prems Inr p st show ?thesis by (auto simp: Let_def)
    next
      case (Inr res)
      with Cons.prems \<open>decodeResilient parse nl = Inr d\<close> p
      obtain cs2 where "drain_resilient rt parse b sid rest accs1 cs2 w1 = (r, w')"
        by (auto simp: Let_def split: if_splits)
      from Cons.IH [OF this] st(1) show ?thesis
        by (blast intro: staging_step_trans)
    qed
  qed
qed

lemma drain_strict_step:
  "drain_strict rt parse b sid ls accs cs w = (r, w') \<Longrightarrow>
     staging_step w w' \<and> (\<forall>e. r = Inl e \<longrightarrow> mid_stream e \<and> (\<forall>io. e \<noteq> IOErr io))"
proof (induction ls arbitrary: accs cs w)
  case Nil
  then show ?case by (auto simp: staging_step_refl)
next
  case (Cons nl rest)
  let ?cs1 = "cs\<lparr>n_processed := n_processed cs + 1\<rparr>"
  show ?case
  proof (cases "decodeEntryWithMetadata parse (fst nl) (snd nl)")
    case (Inl pe)
    with Cons.prems show ?thesis by (auto simp: staging_step_refl)
  next
    case (Inr d)
    obtain pr accs1 w1 where p: "processRoutedEntry rt b d sid accs w = (pr, accs1, w1)"
      by (cases "processRoutedEntry rt b d sid accs w")
    note st = processRoutedEntry_step [OF p]
    show ?thesis
    proof (cases pr)
      case (Inl e)
      with Cons.prems Inr p st show ?thesis by (auto simp: Let_def)
    next
      case (Inr res)
      with Cons.prems \<open>decodeEntryWithMetadata parse (fst nl) (snd nl) = Inr d\<close> p
      obtain cs2 where "drain_strict rt parse b sid rest accs1 cs2 w1 = (r, w')"
        by (auto simp: Let_def split: if_splits)
      from Cons.IH [OF this] st(1) show ?thesis
        by (blast intro: staging_step_trans)
    qed
  qed
qed

lemma run_pipeline_step:
  assumes "run_pipeline rt fs parse resil b sf w = (r, w')"
  shows "staging_step w w'" and "r = Inl e \<Longrightarrow> mid_stream e"
    and "resil \<Longrightarrow> r \<noteq> Inl (ParseErr pe)"
proof -
  obtain ls err where s: "streamJSONL fs (mainFile sf) = (ls, err)"
    by (cases "streamJSONL fs (mainFile sf)")
  let ?init = "\<lparr>n_processed = 0, n_skipped = 0, n_parseErrors = 0\<rparr>"
  obtain r1 w1 where d: "(if resil then drain_resilient else drain_strict) rt parse b (uuid sf)
                  ls new_accumulators ?init w = (r1, w1)"
    by (cases "(if resil then drain_resilient else drain_strict) rt parse b (uuid sf)
                  ls new_accumulators ?init w")
  have st: "staging_step w w1 \<and> (\<forall>e. r1 = Inl e \<longrightarrow> mid_stream e)
      \<and> (resil \<longrightarrow> r1 \<noteq> Inl (ParseErr pe))"
  proof (cases resil)
    case True
    with d drain_resilient_step [of rt parse b "uuid sf" ls new_accumulators ?init w r1 w1]
    show ?thesis by auto
  next
    case False
    with d drain_strict_step [of rt parse b "uuid sf" ls new_accumulators ?init w r1 w1]
    show ?thesis by auto
  qed
  from assms s d have w: "w' = w1"
    by (auto simp: run_pipeline_def split: sum.splits option.splits)
  from assms s d have r: "r = r1 \<or> (\<exists>io. r = Inl (IOErr io))"
    by (auto simp: run_pipeline_def split: sum.splits option.splits)
  from st w show "staging_step w w'" by simp
  from st r show "r = Inl e \<Longrightarrow> mid_stream e" by auto
  from st r show "resil \<Longrightarrow> r \<noteq> Inl (ParseErr pe)" by auto
qed

lemma flush_remaining_step:
  "flush_remaining rt b ts accs w = (r, w') \<Longrightarrow>
     staging_step w w' \<and> (\<forall>e. r = Inl e \<longrightarrow> operation e = op_insert_staging)"
proof (induction ts arbitrary: accs w)
  case Nil
  then show ?case by (auto simp: staging_step_refl)
next
  case (Cons t ts)
  obtain fr st1 w1 where f: "doFlush (accumulator rt b t) (accs t) w = (fr, st1, w1)"
    by (cases "doFlush (accumulator rt b t) (accs t) w")
  note st = doFlush_step [OF f]
  show ?case
  proof (cases fr)
    case (Inl e)
    with Cons.prems f st show ?thesis by (auto simp: flush_acc_def)
  next
    case (Inr x)
    with Cons.prems f have "flush_remaining rt b ts (accs(t := st1)) w1 = (r, w')"
      by (simp add: flush_acc_def)
    from Cons.IH [OF this] st(1) show ?thesis
      by (blast intro: staging_step_trans)
  qed
qed

lemma truncate_step:
  assumes "truncateAllStaging rt w = (r, w')"
  shows "staging_step w w'" and "r = Inl e \<Longrightarrow> operation e = op_truncate"
  using assms
  by (auto simp: truncateAllStaging_def truncate_staging_tables_def send_def staging_step_def
      staging_tables_def split: option.splits)


lemma flushAllStaging_state:
  assumes "flushAllStaging rt w = (r, w')"
  shows "ingestion_state w' = ingestion_state w"
    and "r = Inl e \<Longrightarrow> operation e = op_transaction \<and> tables w' = tables w"
  using assms
  by (auto simp: flushAllStaging_def send_def Let_def
      flush_sessions_staging_def flush_messages_staging_def flush_tool_calls_staging_def
      flush_progress_events_staging_def flush_queue_operations_staging_def
      flush_system_events_staging_def flush_file_history_staging_def flush_staging_def
      split: option.splits prod.splits)

lemma setCursor_failed:
  assumes "setCursor rt ts sid n w = (Inl e, w')"
  shows "ingestion_state w' = ingestion_state w" and "operation e = op_cursor_set"
  using assms by (auto simp: setCursor_def send_def Let_def split: option.splits)

lemma ingest_failure_cases:
  assumes run: "ingestSession rt fs parse sf config w = (Inl e, w')"
  shows "(staging_step w w' \<and> (mid_stream e \<or> (\<exists>d. e = DBErr d \<and> operation d = op_truncate)))
       \<or> (ingestion_state w' = ingestion_state w
           \<and> (\<exists>d. e = DBErr d \<and> (operation d = op_transaction \<or> operation d = op_cursor_set)))"
proof -
  let ?b = "case cfg_batchSize config of None \<Rightarrow> DEFAULT_INGEST_CONFIG_batchSize | Some n \<Rightarrow> n"
  let ?resil = "case resilient config of None \<Rightarrow> DEFAULT_INGEST_CONFIG_resilient | Some r \<Rightarrow> r"
  obtain r1 w1 where t: "truncateAllStaging rt w = (r1, w1)"
    by (cases "truncateAllStaging rt w")
  note st1 = truncate_step [OF t]
  show ?thesis
  proof (cases r1)
    case (Inl d)
    with run t have "e = DBErr d" "w' = w1" by (simp_all add: ingestSession_def Let_def)
    with st1 Inl show ?thesis by auto
  next
    case r1: (Inr u1)
    obtain r2 w2 where p: "run_pipeline rt fs parse ?resil ?b sf w1 = (r2, w2)"
      by (cases "run_pipeline rt fs parse ?resil ?b sf w1")
    note st2 = run_pipeline_step(1,2) [OF p]
    from st1(1) st2(1) have s02: "staging_step w w2" by (rule staging_step_trans)
    show ?thesis
    proof (cases r2)
      case (Inl e2)
      with run t r1 p have "e = e2" "w' = w2" by (simp_all add: ingestSession_def Let_def)
      with st2(2) [OF Inl] s02 show ?thesis by auto
    next
      case r2: (Inr ac)
      obtain accs cs where ac: "ac = (accs, cs)" by (cases ac)
      obtain r3 w3 where f: "flush_remaining rt ?b accumulator_order accs w2 = (r3, w3)"
        by (cases "flush_remaining rt ?b accumulator_order accs w2")
      note st3 = flush_remaining_step [OF f]
      from s02 st3 have s03: "staging_step w w3" by (blast intro: staging_step_trans)
      show ?thesis
      proof (cases r3)
        case (Inl d)
        with run t r1 p r2 ac f have "e = DBErr d" "w' = w3"
          by (simp_all add: ingestSession_def Let_def)
        with st3 Inl s03 show ?thesis by auto
      next
        case r3: (Inr accs')
        obtain r4 w4 where fa: "flushAllStaging rt w3 = (r4, w4)"
          by (cases "flushAllStaging rt w3")
        note st4 = flushAllStaging_state [OF fa]
        from s03 st4(1) have i4: "ingestion_state w4 = ingestion_state w"
          by (simp add: staging_step_def)
        show ?thesis
        proof (cases r4)
          case (Inl d)
          with run t r1 p r2 ac f r3 fa have "e = DBErr d" "w' = w4"
            by (simp_all add: ingestSession_def Let_def)
          with st4(2) [OF Inl] i4 show ?thesis by auto
        next
          case r4: (Inr fr)
          let ?set = "if updateCursor config \<noteq> Some False
             then setCursor rt (modifiedAt sf) (Some (uuid sf)) (Some 1) w4
             else (Inr (), w4)"
          obtain r5 w5 where sc: "?set = (r5, w5)" by (cases ?set)
          show ?thesis
          proof (cases r5)
            case (Inl d)
            with run t r1 p r2 ac f r3 fa r4 sc have ew: "e = DBErr d" "w' = w5"
              by (simp_all add: ingestSession_def Let_def)
            from sc Inl have "setCursor rt (modifiedAt sf) (Some (uuid sf)) (Some 1) w4 = (Inl d, w5)"
              by (auto split: if_splits)
            from setCursor_failed [OF this] ew i4 show ?thesis by auto
          next
            case (Inr u5)
            with run t r1 p r2 ac f r3 fa r4 sc have False
              by (simp add: ingestSession_def Let_def)
            then show ?thesis ..
          qed
        qed
      qed
    qed
  qed
qed

text \<open>
  C2. When \<^verbatim>\<open>ingestSession\<close> aborts in mid-stream (with an \<open>IOError\<close>, a \<open>ParseError\<close>, or a
  \<open>DBError\<close> of a staging insert), the statements it has sent contain neither the flush
  transaction nor a cursor upsert, the cursor table is as it was before the run, and so is
  every table outside the staging tables. Whatever the error a run fails with, the cursor
  table is as it was before the run.
\<close>

theorem abort_leaves_cursor:
  "(ingestSession rt fs parse sf config w = (Inl e, w') \<and> mid_stream e \<longrightarrow>
      ingestion_state w' = ingestion_state w
      \<and> (\<exists>tr. trace w' = trace w @ tr
              \<and> TransactionFlushAll \<notin> set tr \<and> (\<forall>v. UpsertCursor v \<notin> set tr))
      \<and> (\<forall>t. t \<notin> set staging_tables \<longrightarrow> tables w' t = tables w t))
   \<and> (ingestSession rt fs parse sf config w = (Inl e, w') \<longrightarrow>
      ingestion_state w' = ingestion_state w)"
proof -
  have no_flush: "TransactionFlushAll \<notin> set tr \<and> (\<forall>v. UpsertCursor v \<notin> set tr)"
    if "list_all is_staging_stmt tr" for tr
    using that by (auto simp: list_all_iff)
  have A: "ingestion_state w' = ingestion_state w
      \<and> (\<exists>tr. trace w' = trace w @ tr
              \<and> TransactionFlushAll \<notin> set tr \<and> (\<forall>v. UpsertCursor v \<notin> set tr))
      \<and> (\<forall>t. t \<notin> set staging_tables \<longrightarrow> tables w' t = tables w t)"
    if run: "ingestSession rt fs parse sf config w = (Inl e, w')" and mid: "mid_stream e"
  proof -
    from ingest_failure_cases [OF run] mid have "staging_step w w'" by auto
    then show ?thesis using no_flush by (auto simp: staging_step_def)
  qed
  have B: "ingestion_state w' = ingestion_state w"
    if run: "ingestSession rt fs parse sf config w = (Inl e, w')"
    using ingest_failure_cases [OF run] by (auto simp: staging_step_def)
  from A B show ?thesis by blast
qed


subsection \<open>Three aborted runs\<close>

lemma ex_io:
  "fst (ingestSession rt_ok fs_ex parse_ex sf_missing cfg_default w_cursor_20)
     = Inl (IOErr \<lparr>io_path = ''/r/-p/gone.jsonl'', io_op = io_read, io_cause = ''ENOENT''\<rparr>)"
  by code_simp

lemma ex_strict:
  "fst (ingestSession rt_ok fs_ex parse_ex sf_ex cfg_strict w_cursor_20)
     = Inl (ParseErr \<lparr>line = 2, content = ''{broken'', cause = ''SyntaxError''\<rparr>)"
  by code_simp

lemma ex_strict_trace:
  "trace (snd (ingestSession rt_ok fs_ex parse_ex sf_ex cfg_strict w_cursor_20))
     = [SelectTruncateStagingTables]"
  by code_simp

lemma ex_store:
  "fst (ingestSession rt_insert_fails fs_ex parse_ex sf_ex cfg_batch_1 w_cursor_20)
     = Inl (DBErr \<lparr>operation = op_insert_staging, db_table = Some ''messages_staging'',
                   db_cause = ''connection lost''\<rparr>)"
  by code_simp

theorem abort_leaves_cursor_witness:
  "fst (ingestSession rt_ok fs_ex parse_ex sf_missing cfg_default w_cursor_20)
     = Inl (IOErr \<lparr>io_path = ''/r/-p/gone.jsonl'', io_op = io_read, io_cause = ''ENOENT''\<rparr>)
   \<and> mid_stream (IOErr \<lparr>io_path = ''/r/-p/gone.jsonl'', io_op = io_read, io_cause = ''ENOENT''\<rparr>)
   \<and> ingestion_state (snd (ingestSession rt_ok fs_ex parse_ex sf_missing cfg_default w_cursor_20))
       = ingestion_state w_cursor_20
   \<and> fst (ingestSession rt_ok fs_ex parse_ex sf_ex cfg_strict w_cursor_20)
     = Inl (ParseErr \<lparr>line = 2, content = ''{broken'', cause = ''SyntaxError''\<rparr>)
   \<and> mid_stream (ParseErr \<lparr>line = 2, content = ''{broken'', cause = ''SyntaxError''\<rparr>)
   \<and> ingestion_state (snd (ingestSession rt_ok fs_ex parse_ex sf_ex cfg_strict w_cursor_20))
       = ingestion_state w_cursor_20
   \<and> trace (snd (ingestSession rt_ok fs_ex parse_ex sf_ex cfg_strict w_cursor_20))
       = [SelectTruncateStagingTables]
   \<and> fst (ingestSession rt_insert_fails fs_ex parse_ex sf_ex cfg_batch_1 w_cursor_20)
     = Inl (DBErr \<lparr>operation = op_insert_staging, db_table = Some ''messages_staging'',
                   db_cause = ''connection lost''\<rparr>)
   \<and> mid_stream (DBErr \<lparr>operation = op_insert_staging, db_table = Some ''messages_staging'',
                   db_cause = ''connection lost''\<rparr>)
   \<and> ingestion_state (snd (ingestSession rt_insert_fails fs_ex parse_ex sf_ex cfg_batch_1 w_cursor_20))
       = ingestion_state w_cursor_20"
proof -
  let ?c = "ingestSession rt_insert_fails fs_ex parse_ex sf_ex cfg_batch_1 w_cursor_20"
  let ?ec = "DBErr \<lparr>operation = op_insert_staging, db_table = Some ''messages_staging'',
                   db_cause = ''connection lost''\<rparr>"
  from ex_store have hc: "?c = (Inl ?ec, snd ?c)" by (simp add: prod_eq_iff)
  have mc: "mid_stream ?ec" by simp
  from abort_leaves_cursor
         [of rt_insert_fails fs_ex parse_ex sf_ex cfg_batch_1 w_cursor_20 ?ec "snd ?c"] hc mc
  have cc: "ingestion_state (snd ?c) = ingestion_state w_cursor_20" by blast
  let ?a = "ingestSession rt_ok fs_ex parse_ex sf_missing cfg_default w_cursor_20"
  let ?ea = "IOErr \<lparr>io_path = ''/r/-p/gone.jsonl'', io_op = io_read, io_cause = ''ENOENT''\<rparr>"
  let ?b = "ingestSession rt_ok fs_ex parse_ex sf_ex cfg_strict w_cursor_20"
  let ?eb = "ParseErr \<lparr>line = 2, content = ''{broken'', cause = ''SyntaxError''\<rparr>"
  from ex_io have ha: "?a = (Inl ?ea, snd ?a)" by (simp add: prod_eq_iff)
  from ex_strict have hb: "?b = (Inl ?eb, snd ?b)" by (simp add: prod_eq_iff)
  have ma: "mid_stream ?ea" and mb: "mid_stream ?eb" by simp_all
  from abort_leaves_cursor
         [of rt_ok fs_ex parse_ex sf_missing cfg_default w_cursor_20 ?ea "snd ?a"] ha ma
  have ca: "ingestion_state (snd ?a) = ingestion_state w_cursor_20" by blast
  from abort_leaves_cursor
         [of rt_ok fs_ex parse_ex sf_ex cfg_strict w_cursor_20 ?eb "snd ?b"] hb mb
  have cb: "ingestion_state (snd ?b) = ingestion_state w_cursor_20" by blast
  from ex_io ma ca ex_strict mb cb ex_strict_trace ex_store mc cc show ?thesis by blast
qed



section \<open>Resilient decoding\<close>


lemma snd_number_from: "map snd (number_from n ls) = ls"
  by (induction ls arbitrary: n) simp_all
















lemma resilient_never_parse_error:
  assumes res: "resilient config \<noteq> Some False"
  shows "fst (ingestSession rt fs parse sf config w) \<noteq> Inl (ParseErr pe)"
proof
  assume a: "fst (ingestSession rt fs parse sf config w) = Inl (ParseErr pe)"
  let ?b = "case cfg_batchSize config of None \<Rightarrow> DEFAULT_INGEST_CONFIG_batchSize | Some n \<Rightarrow> n"
  from res have resil:
    "(case resilient config of None \<Rightarrow> DEFAULT_INGEST_CONFIG_resilient | Some r \<Rightarrow> r) = True"
    by (auto simp: DEFAULT_INGEST_CONFIG_resilient_def split: option.splits)
  from a obtain w1 w2 where "run_pipeline rt fs parse True ?b sf w1 = (Inl (ParseErr pe), w2)"
    unfolding ingestSession_def Let_def resil
    by (auto split: prod.splits sum.splits if_splits)
  from run_pipeline_step(3) [OF this, of pe] show False by simp
qed






section \<open>Failed runs yield no stats\<close>

lemma drain_strict_fails:
  "list_ex (\<lambda>nl. isl (parse (snd nl))) ls \<Longrightarrow>
     isl (fst (drain_strict rt parse b sid ls accs cs w))"
proof (induction ls arbitrary: accs cs w)
  case Nil
  then show ?case by simp
next
  case (Cons nl rest)
  show ?case
  proof (cases "parse (snd nl)")
    case (Inl c)
    then show ?thesis by (simp add: decodeEntryWithMetadata_def decodeEntry_def)
  next
    case (Inr en)
    with Cons.prems have rest: "list_ex (\<lambda>nl. isl (parse (snd nl))) rest" by simp
    obtain pr accs1 w1 where p:
      "processRoutedEntry rt b \<lparr>lineNum = fst nl, entry = en\<rparr> sid accs w = (pr, accs1, w1)"
      by (cases "processRoutedEntry rt b \<lparr>lineNum = fst nl, entry = en\<rparr> sid accs w")
    show ?thesis
    proof (cases pr)
      case (Inl e)
      with Inr p show ?thesis
        by (simp add: decodeEntryWithMetadata_def decodeEntry_def Let_def)
    next
      case r: (Inr res)
      from Cons.IH [OF rest] Inr p r show ?thesis
        by (simp add: decodeEntryWithMetadata_def decodeEntry_def Let_def)
    qed
  qed
qed

lemma drain_strict_parse_error:
  "drain_strict rt parse b sid ls accs cs w = (Inl (ParseErr pe), w') \<Longrightarrow>
     \<exists>nl \<in> set ls. parse (snd nl) = Inl (cause pe) \<and> line pe = fst nl
                   \<and> content pe = take 100 (snd nl)"
proof (induction ls arbitrary: accs cs w)
  case Nil
  then show ?case by simp
next
  case (Cons nl rest)
  show ?case
  proof (cases "parse (snd nl)")
    case (Inl c)
    with Cons.prems show ?thesis
      by (auto simp: decodeEntryWithMetadata_def decodeEntry_def)
  next
    case (Inr en)
    obtain pr accs1 w1 where p:
      "processRoutedEntry rt b \<lparr>lineNum = fst nl, entry = en\<rparr> sid accs w = (pr, accs1, w1)"
      by (cases "processRoutedEntry rt b \<lparr>lineNum = fst nl, entry = en\<rparr> sid accs w")
    show ?thesis
    proof (cases pr)
      case (Inl e)
      with Inr p Cons.prems show ?thesis
        by (simp add: decodeEntryWithMetadata_def decodeEntry_def Let_def)
    next
      case r: (Inr res)
      with Inr p Cons.prems obtain cs2 where
        "drain_strict rt parse b sid rest accs1 cs2 w1 = (Inl (ParseErr pe), w')"
        by (auto simp: decodeEntryWithMetadata_def decodeEntry_def Let_def split: if_splits)
      from Cons.IH [OF this] show ?thesis by auto
    qed
  qed
qed

lemma in_number_from: "nl \<in> set (number_from n ls) \<Longrightarrow> snd nl \<in> set ls"
  using snd_number_from [of n ls] by (metis image_eqI set_map)


lemma list_ex_number_from:
  "list_ex (\<lambda>l. isl (parse l)) ls \<Longrightarrow> list_ex (\<lambda>nl. isl (parse (snd nl))) (number_from n ls)"
proof -
  assume "list_ex (\<lambda>l. isl (parse l)) ls"
  then have "list_ex (\<lambda>l. isl (parse l)) (map snd (number_from n ls))"
    by (simp add: snd_number_from)
  then show ?thesis by (simp add: list_ex_iff)
qed

lemma flushAll_error:
  assumes "flushAllStaging rt w = (Inl d, w')"
  shows "operation d = op_transaction" and "db_table d = None"
    and "db_fault rt (trace w) TransactionFlushAll = Some (db_cause d)"
  using assms
  by (auto simp: flushAllStaging_def send_def Let_def split: option.splits prod.splits)

lemma flushAll_ok_fault:
  "flushAllStaging rt w = (Inr r, w') \<Longrightarrow> db_fault rt (trace w) TransactionFlushAll = None"
  by (auto simp: flushAllStaging_def send_def Let_def split: option.splits)

lemma ingest_error_sources:
  assumes "fst (ingestSession rt fs parse sf config w) = Inl e"
  shows "(\<exists>d w0 w1. truncateAllStaging rt w0 = (Inl d, w1) \<and> e = DBErr d)
       \<or> (\<exists>b w1 w2. run_pipeline rt fs parse
              (case resilient config of None \<Rightarrow> DEFAULT_INGEST_CONFIG_resilient | Some r \<Rightarrow> r)
              b sf w1 = (Inl e, w2))
       \<or> (\<exists>b ts accs w2 d w3. flush_remaining rt b ts accs w2 = (Inl d, w3) \<and> e = DBErr d)
       \<or> (\<exists>w3 d w4. flushAllStaging rt w3 = (Inl d, w4) \<and> e = DBErr d)
       \<or> (\<exists>ts sid n w4 d w5. setCursor rt ts sid n w4 = (Inl d, w5) \<and> e = DBErr d)"
proof -
  let ?b = "case cfg_batchSize config of None \<Rightarrow> DEFAULT_INGEST_CONFIG_batchSize | Some n \<Rightarrow> n"
  let ?resil = "case resilient config of None \<Rightarrow> DEFAULT_INGEST_CONFIG_resilient | Some r \<Rightarrow> r"
  obtain r1 w1 where t: "truncateAllStaging rt w = (r1, w1)"
    by (cases "truncateAllStaging rt w")
  show ?thesis
  proof (cases r1)
    case (Inl d)
    with assms t have "e = DBErr d" by (simp add: ingestSession_def Let_def)
    with t Inl have "\<exists>d w0 w1. truncateAllStaging rt w0 = (Inl d, w1) \<and> e = DBErr d" by blast
    then show ?thesis by (rule disjI1)
  next
    case r1: (Inr u1)
    obtain r2 w2 where p: "run_pipeline rt fs parse ?resil ?b sf w1 = (r2, w2)"
      by (cases "run_pipeline rt fs parse ?resil ?b sf w1")
    show ?thesis
    proof (cases r2)
      case (Inl e2)
      with assms t r1 p have "e = e2" by (simp add: ingestSession_def Let_def)
      with p Inl have "\<exists>b w1 w2. run_pipeline rt fs parse ?resil b sf w1 = (Inl e, w2)" by blast
      then show ?thesis by (rule disjI2 [OF disjI1])
    next
      case r2: (Inr ac)
      obtain accs cs where ac: "ac = (accs, cs)" by (cases ac)
      obtain r3 w3 where f: "flush_remaining rt ?b accumulator_order accs w2 = (r3, w3)"
        by (cases "flush_remaining rt ?b accumulator_order accs w2")
      show ?thesis
      proof (cases r3)
        case (Inl d)
        with assms t r1 p r2 ac f have "e = DBErr d" by (simp add: ingestSession_def Let_def)
        with f Inl
        have "\<exists>b ts accs w2 d w3. flush_remaining rt b ts accs w2 = (Inl d, w3) \<and> e = DBErr d"
          by blast
        then show ?thesis by (rule disjI2 [OF disjI2 [OF disjI1]])
      next
        case r3: (Inr accs')
        obtain r4 w4 where fa: "flushAllStaging rt w3 = (r4, w4)"
          by (cases "flushAllStaging rt w3")
        show ?thesis
        proof (cases r4)
          case (Inl d)
          with assms t r1 p r2 ac f r3 fa have "e = DBErr d"
            by (simp add: ingestSession_def Let_def)
          with fa Inl have "\<exists>w3 d w4. flushAllStaging rt w3 = (Inl d, w4) \<and> e = DBErr d"
            by blast
          then show ?thesis by (rule disjI2 [OF disjI2 [OF disjI2 [OF disjI1]]])
        next
          case r4: (Inr fr)
          let ?set = "if updateCursor config \<noteq> Some False
             then setCursor rt (modifiedAt sf) (Some (uuid sf)) (Some 1) w4
             else (Inr (), w4)"
          obtain r5 w5 where sc: "?set = (r5, w5)" by (cases ?set)
          show ?thesis
          proof (cases r5)
            case (Inl d)
            with assms t r1 p r2 ac f r3 fa r4 sc have ew: "e = DBErr d"
              by (simp add: ingestSession_def Let_def)
            from sc Inl have "setCursor rt (modifiedAt sf) (Some (uuid sf)) (Some 1) w4 = (Inl d, w5)"
              by (auto split: if_splits)
            with ew have "\<exists>ts sid n w4 d w5. setCursor rt ts sid n w4 = (Inl d, w5) \<and> e = DBErr d"
              by blast
            then show ?thesis by (rule disjI2 [OF disjI2 [OF disjI2 [OF disjI2]]])
          next
            case (Inr u5)
            with assms t r1 p r2 ac f r3 fa r4 sc have False
              by (simp add: ingestSession_def Let_def)
            then show ?thesis ..
          qed
        qed
      qed
    qed
  qed
qed

lemma ingest_stats_sources:
  assumes "fst (ingestSession rt fs parse sf config w) = Inr stats"
  obtains b w1 r w2 w3 fr w4 where
    "run_pipeline rt fs parse
       (case resilient config of None \<Rightarrow> DEFAULT_INGEST_CONFIG_resilient | Some r \<Rightarrow> r)
       b sf w1 = (Inr r, w2)"
    and "flushAllStaging rt w3 = (Inr fr, w4)"
  using assms unfolding ingestSession_def Let_def
  by (auto split: prod.splits sum.splits)

lemma run_pipeline_strict_fails:
  assumes "list_ex (\<lambda>l. isl (parse l)) (nonblank_lines fs sf)"
  shows "isl (fst (run_pipeline rt fs parse False b sf w))"
proof -
  let ?ls = "number_from 0 (nonblank_lines fs sf)"
  let ?init = "\<lparr>n_processed = 0, n_skipped = 0, n_parseErrors = 0\<rparr>"
  from drain_strict_fails [OF list_ex_number_from [OF assms], of rt b "uuid sf" 0 new_accumulators ?init w]
  have "isl (fst (drain_strict rt parse b (uuid sf) ?ls new_accumulators ?init w))" .
  then show ?thesis
    by (auto simp: run_pipeline_def streamJSONL_def nonblank_lines_def isl_def
        split: prod.splits sum.splits option.splits)
qed

lemma run_pipeline_parse_error:
  assumes "run_pipeline rt fs parse False b sf w = (Inl (ParseErr pe), w')"
  shows "\<exists>l. (line pe, l) \<in> set (number_from 0 (nonblank_lines fs sf))
            \<and> parse l = Inl (cause pe) \<and> content pe = take 100 l"
proof -
  let ?ls = "number_from 0 (nonblank_lines fs sf)"
  let ?init = "\<lparr>n_processed = 0, n_skipped = 0, n_parseErrors = 0\<rparr>"
  from assms have "drain_strict rt parse b (uuid sf) ?ls new_accumulators ?init w
      = (Inl (ParseErr pe), w')"
    by (auto simp: run_pipeline_def streamJSONL_def nonblank_lines_def
        split: prod.splits sum.splits option.splits)
  from drain_strict_parse_error [OF this] obtain nl where
    "nl \<in> set ?ls" "parse (snd nl) = Inl (cause pe)" "line pe = fst nl"
    "content pe = take 100 (snd nl)" by blast
  then have "(line pe, snd nl) \<in> set ?ls \<and> parse (snd nl) = Inl (cause pe)
      \<and> content pe = take 100 (snd nl)" by simp
  then show ?thesis by blast
qed

text \<open>
  C9, as amended. \<^verbatim>\<open>ingestSession\<close> yields \<open>IngestionStats\<close> only when the run
  completes. When decoding aborts in strict mode (a non-empty line fails to decode), or
  when the database fails the flush-to-permanent transaction, the run yields no stats: it
  fails. The failure is distinguishable and carries its cause: a \<open>ParseError\<close> occurs in
  strict mode only and has the number, the first 100 characters and the parse failure of a
  line of the file; a \<open>DBError\<close> of operation \<^verbatim>\<open>transaction\<close> has no table and the cause
  the database gave for the flush transaction.
\<close>

theorem stats_only_on_success:
  "(resilient config = Some False \<and> list_ex (\<lambda>l. isl (parse l)) (nonblank_lines fs sf) \<longrightarrow>
      isl (fst (ingestSession rt fs parse sf config w)))
   \<and> ((\<forall>tr. db_fault rt tr TransactionFlushAll \<noteq> None) \<longrightarrow>
      isl (fst (ingestSession rt fs parse sf config w)))
   \<and> (fst (ingestSession rt fs parse sf config w) = Inl (ParseErr pe) \<longrightarrow>
      resilient config = Some False
      \<and> (\<exists>l. (line pe, l) \<in> set (number_from 0 (nonblank_lines fs sf))
             \<and> parse l = Inl (cause pe) \<and> content pe = take 100 l))
   \<and> (fst (ingestSession rt fs parse sf config w) = Inl (DBErr d) \<and> operation d = op_transaction \<longrightarrow>
      db_table d = None \<and> (\<exists>tr. db_fault rt tr TransactionFlushAll = Some (db_cause d)))"
proof -
  let ?run = "fst (ingestSession rt fs parse sf config w)"
  let ?resil = "case resilient config of None \<Rightarrow> DEFAULT_INGEST_CONFIG_resilient | Some r \<Rightarrow> r"
  have A: "isl ?run"
    if "resilient config = Some False \<and> list_ex (\<lambda>l. isl (parse l)) (nonblank_lines fs sf)"
  proof (cases ?run)
    case (Inl e)
    then show ?thesis by simp
  next
    case (Inr stats)
    from ingest_stats_sources [OF Inr] that obtain b w1 r w2 where
      "run_pipeline rt fs parse False b sf w1 = (Inr r, w2)" by (metis option.simps(5))
    with run_pipeline_strict_fails [of parse fs sf rt b w1] that show ?thesis by simp
  qed
  have B: "isl ?run" if "\<forall>tr. db_fault rt tr TransactionFlushAll \<noteq> None"
  proof (cases ?run)
    case (Inl e)
    then show ?thesis by simp
  next
    case (Inr stats)
    from ingest_stats_sources [OF Inr] obtain w3 fr w4 where
      "flushAllStaging rt w3 = (Inr fr, w4)" by metis
    from flushAll_ok_fault [OF this] that show ?thesis by simp
  qed
  have C: "resilient config = Some False
      \<and> (\<exists>l. (line pe, l) \<in> set (number_from 0 (nonblank_lines fs sf))
             \<and> parse l = Inl (cause pe) \<and> content pe = take 100 l)"
    if run: "?run = Inl (ParseErr pe)"
  proof -
    from resilient_never_parse_error [of config rt fs parse sf w pe] run
    have strict: "resilient config = Some False" by auto
    from ingest_error_sources [OF run] strict obtain b w1 w2 where
      "run_pipeline rt fs parse False b sf w1 = (Inl (ParseErr pe), w2)" by auto
    from run_pipeline_parse_error [OF this] strict show ?thesis by simp
  qed
  have D: "db_table d = None \<and> (\<exists>tr. db_fault rt tr TransactionFlushAll = Some (db_cause d))"
    if "?run = Inl (DBErr d) \<and> operation d = op_transaction"
  proof -
    from that have run: "?run = Inl (DBErr d)" and op: "operation d = op_transaction" by simp_all
    from ingest_error_sources [OF run] consider
        (t) w0 w1 where "truncateAllStaging rt w0 = (Inl d, w1)"
      | (p) b w1 w2 where "run_pipeline rt fs parse ?resil b sf w1 = (Inl (DBErr d), w2)"
      | (f) b ts accs w2 w3 where "flush_remaining rt b ts accs w2 = (Inl d, w3)"
      | (a) w3 w4 where "flushAllStaging rt w3 = (Inl d, w4)"
      | (c) ts sid n w4 w5 where "setCursor rt ts sid n w4 = (Inl d, w5)"
      by auto
    then show ?thesis
    proof cases
      case t
      from truncate_step(2) [OF t] op show ?thesis by simp
    next
      case p
      from run_pipeline_step(2) [OF p] op show ?thesis by simp
    next
      case f
      from flush_remaining_step [OF f] op show ?thesis by simp
    next
      case a
      from flushAll_error [OF a] show ?thesis by blast
    next
      case c
      from setCursor_failed(2) [OF c] op show ?thesis by simp
    qed
  qed
  from A B C D show ?thesis by blast
qed

lemma ex_flush_fails:
  "fst (ingestSession rt_flush_fails fs_ex parse_ex sf_ex cfg_default w_cursor_20)
     = Inl (DBErr \<lparr>operation = op_transaction, db_table = None,
                   db_cause = ''deadlock detected''\<rparr>)"
  by code_simp

theorem stats_only_on_success_witness:
  "resilient cfg_strict = Some False
   \<and> list_ex (\<lambda>l. isl (parse_ex l)) (nonblank_lines fs_ex sf_ex)
   \<and> isl (fst (ingestSession rt_ok fs_ex parse_ex sf_ex cfg_strict w_cursor_20))
   \<and> fst (ingestSession rt_ok fs_ex parse_ex sf_ex cfg_strict w_cursor_20)
       = Inl (ParseErr \<lparr>line = 2, content = ''{broken'', cause = ''SyntaxError''\<rparr>)
   \<and> (\<forall>tr. db_fault rt_flush_fails tr TransactionFlushAll \<noteq> None)
   \<and> isl (fst (ingestSession rt_flush_fails fs_ex parse_ex sf_ex cfg_default w_cursor_20))
   \<and> fst (ingestSession rt_flush_fails fs_ex parse_ex sf_ex cfg_default w_cursor_20)
       = Inl (DBErr \<lparr>operation = op_transaction, db_table = None,
                     db_cause = ''deadlock detected''\<rparr>)"
proof -
  have h1: "resilient cfg_strict = Some False" by (simp add: cfg_strict_def)
  have h2: "list_ex (\<lambda>l. isl (parse_ex l)) (nonblank_lines fs_ex sf_ex)" by code_simp
  have h3: "\<forall>tr. db_fault rt_flush_fails tr TransactionFlushAll \<noteq> None"
    by (simp add: rt_flush_fails_def)
  from stats_only_on_success
         [of cfg_strict parse_ex fs_ex sf_ex rt_ok w_cursor_20] h1 h2
  have c1: "isl (fst (ingestSession rt_ok fs_ex parse_ex sf_ex cfg_strict w_cursor_20))"
    by blast
  from stats_only_on_success
         [of cfg_default parse_ex fs_ex sf_ex rt_flush_fails w_cursor_20] h3
  have c2: "isl (fst (ingestSession rt_flush_fails fs_ex parse_ex sf_ex cfg_default w_cursor_20))"
    by blast
  from h1 h2 h3 c1 c2 ex_strict ex_flush_fails show ?thesis by blast
qed

text \<open>
  The stats are not emitted regardless of outcome: a strict run over a file with a broken
  line and a run whose flush transaction fails both end in the error channel, with no
  \<open>IngestionStats\<close>.
\<close>

theorem stats_regardless_counterexample:
  "fst (ingestSession rt_ok fs_ex parse_ex sf_ex cfg_strict w_cursor_20)
     = Inl (ParseErr \<lparr>line = 2, content = ''{broken'', cause = ''SyntaxError''\<rparr>)
   \<and> fst (ingestSession rt_flush_fails fs_ex parse_ex sf_ex cfg_default w_cursor_20)
     = Inl (DBErr \<lparr>operation = op_transaction, db_table = None,
                   db_cause = ''deadlock detected''\<rparr>)"
  by code_simp


end
